theory Spec2Isabelle
  imports Main "HOL-Library.AList" "HOL-Library.Multiset"
begin

section \<open>Values that cross the JavaScript boundary\<close>

text \<open>
  Identifiers reach the services either as JSON numbers or as strings (Express route
  parameters are strings). The difference matters where the source tests truthiness
  (\<^verbatim>\<open>!conversationId\<close>, \<^verbatim>\<open>data.projectId\<close>) or compares with \<^verbatim>\<open>===\<close>.
  \<open>JNum n\<close> is the number \<open>n\<close>; \<open>JStr n\<close> is the non-empty string that spells \<open>n\<close>
  in decimal.
\<close>

datatype js_id = JNum int | JStr int

fun truthy :: "js_id \<Rightarrow> bool" where
  "truthy (JNum n) = (n \<noteq> 0)"
| "truthy (JStr n) = True"

text \<open>\<^verbatim>\<open>Number(x)\<close>.\<close>

fun Number :: "js_id \<Rightarrow> js_id" where
  "Number (JNum n) = JNum n"
| "Number (JStr n) = JNum n"

text \<open>The integer PostgreSQL reads from a query parameter bound to an INTEGER column.\<close>

fun sql_int :: "js_id \<Rightarrow> int" where
  "sql_int (JNum n) = n"
| "sql_int (JStr n) = n"

text \<open>
  What a handler throws: \<^verbatim>\<open>throw { status, message }\<close>, \<^verbatim>\<open>throw 'key'\<close>,
  \<^verbatim>\<open>throw new Error(msg)\<close>, and an error raised by the database driver.
\<close>

datatype thrown =
    ThrownStatus int string
  | ThrownString string
  | ThrownError string
  | DbError string

section \<open>The relational store (schema.sql)\<close>

text \<open>
  One record per table, with the columns the services read or write. A table is the list
  of its rows in the order a scan meets them; SQL itself promises no order. The users
  table is not modelled: no operation below touches it. Timestamps are natural numbers.
\<close>

record token =
  tok_id :: int
  tok_user_id :: int
  tok_name :: string
  tok_api_key :: string
  tok_active :: bool

record agent =
  ag_id :: int
  ag_user_id :: "int option"
  ag_name :: string
  ag_role :: string
  ag_description :: string
  ag_model :: string

record project =
  pr_id :: int
  pr_user_id :: int
  pr_title :: string
  pr_description :: string
  pr_system_prompt :: string
  pr_paused :: bool
  pr_message_limit :: int
  pr_last_activity_at :: nat

record project_token =
  pt_project_id :: int
  pt_token_id :: "int option"

record project_agent_member =
  pam_project_id :: int
  pam_agent_id :: int
  pam_role :: string
  pam_prompt :: string
  pam_can_message_ids :: "int list"
  pam_thread_id :: "string option"

record conversation =
  cv_id :: int
  cv_project_id :: int
  cv_sender_id :: int
  cv_receiver_id :: int

record message =
  msg_id :: int
  msg_conversation_id :: int
  msg_project_id :: int
  msg_sender_id :: int
  msg_receiver_id :: int
  msg_type :: string
  msg_status :: string
  msg_content :: string
  msg_created_at :: nat

record log =
  log_id :: int
  log_project_id :: int
  log_level :: string
  log_message :: string
  log_code :: "string option"

record agent_history_summary =
  ahs_agent_id :: int
  ahs_project_id :: int
  ahs_summary :: string
  ahs_message_count :: int
  ahs_summary_count :: int

text \<open>
  The \<open>seq_\<close> fields are the SERIAL sequences. \<open>commits\<close> counts the writing
  transactions committed so far: a \<^verbatim>\<open>db.tx\<close> block commits once, and a writing statement
  issued on \<^verbatim>\<open>db\<close> directly commits on its own.
\<close>

record db =
  tokens :: "token list"
  agents :: "agent list"
  projects :: "project list"
  project_tokens :: "project_token list"
  project_agent_members :: "project_agent_member list"
  conversations :: "conversation list"
  messages :: "message list"
  logs :: "log list"
  agent_history_summaries :: "agent_history_summary list"
  seq_tokens :: int
  seq_agents :: int
  seq_projects :: int
  seq_conversations :: int
  seq_messages :: int
  seq_logs :: int
  commits :: nat

section \<open>The live-update hub (webSocketService.js)\<close>

text \<open>
  The payload of a pushed frame. \<open>New_message\<close> carries the inserted row (the source
  renames its fields with \<^verbatim>\<open>normalizeMessage\<close>), \<open>Message_updated\<close> the id, status and
  conversation, \<open>Project_updated\<close> the project id as the caller passed it, and the
  optional \<^verbatim>\<open>messageLimit\<close> and \<^verbatim>\<open>isPaused\<close> fields.
\<close>

datatype event =
    New_message message
  | Message_updated int string int
  | Project_updated js_id "int option" "bool option"

record client =
  c_projectId :: js_id
  c_userId :: int

text \<open>
  Sockets are numbered. \<open>clients\<close> and \<open>pendingMessages\<close> are the two JavaScript Maps,
  kept as association lists in insertion order. \<open>ready\<close> holds the sockets whose
  \<^verbatim>\<open>readyState\<close> is \<^verbatim>\<open>OPEN\<close>; \<open>sent\<close> is the trace of \<^verbatim>\<open>ws.send\<close> calls.
\<close>

record hub =
  clients :: "(nat \<times> client) list"
  pendingMessages :: "(js_id \<times> event list) list"
  ready :: "nat set"
  sent :: "(nat \<times> event) list"

record frame =
  f_type :: string
  f_projectId :: "js_id option"

definition ws_send :: "nat \<Rightarrow> event \<Rightarrow> hub \<Rightarrow> hub" where
  "ws_send ws m h = (if ws \<in> ready h then h\<lparr>sent := sent h @ [(ws, m)]\<rparr> else h)"

definition queued :: "hub \<Rightarrow> js_id \<Rightarrow> event list" where
  "queued h pid = (case map_of (pendingMessages h) pid of None \<Rightarrow> [] | Some q \<Rightarrow> q)"

definition broadcastToProject :: "js_id \<Rightarrow> event \<Rightarrow> hub \<Rightarrow> hub" where
  "broadcastToProject pid m h =
     (let projectClients = filter (\<lambda>(ws, c). c_projectId c = pid) (clients h) in
      if projectClients = []
      then h\<lparr>pendingMessages := AList.update pid (queued h pid @ [m]) (pendingMessages h)\<rparr>
      else fold (\<lambda>(ws, c). ws_send ws m) projectClients h)"

text \<open>
  The \<^verbatim>\<open>message\<close> handler of a socket whose connection carried user \<open>uid\<close>. \<open>None\<close>
  is a frame that \<^verbatim>\<open>JSON.parse\<close> rejects; the handler catches that and changes nothing.
\<close>

definition on_message :: "nat \<Rightarrow> int \<Rightarrow> frame option \<Rightarrow> hub \<Rightarrow> hub" where
  "on_message ws uid msg h =
     (case msg of
        None \<Rightarrow> h
      | Some data \<Rightarrow>
         (case f_projectId data of
            None \<Rightarrow> h
          | Some pid \<Rightarrow>
              if f_type data = ''join'' \<and> truthy pid then
                (let h1 = h\<lparr>clients := AList.update ws \<lparr>c_projectId = pid, c_userId = uid\<rparr> (clients h)\<rparr>
                 in case map_of (pendingMessages h1) pid of
                      None \<Rightarrow> h1
                    | Some queue \<Rightarrow>
                        (fold (ws_send ws) queue h1)
                          \<lparr>pendingMessages := AList.delete pid (pendingMessages h1)\<rparr>)
              else h))"

text \<open>The socket leaves the \<^verbatim>\<open>OPEN\<close> state and its \<^verbatim>\<open>close\<close> handler runs.\<close>

definition on_close :: "nat \<Rightarrow> hub \<Rightarrow> hub" where
  "on_close ws h = h\<lparr>clients := AList.delete ws (clients h), ready := ready h - {ws}\<rparr>"

text \<open>What the hub goes through after a join: broadcasts, frames of sockets, closes.\<close>

datatype hub_op = Broadcast js_id event | Message nat int "frame option" | Close nat

fun hub_step :: "hub_op \<Rightarrow> hub \<Rightarrow> hub" where
  "hub_step (Broadcast pid m) h = broadcastToProject pid m h"
| "hub_step (Message ws uid msg) h = on_message ws uid msg h"
| "hub_step (Close ws) h = on_close ws h"

definition hub_run :: "hub_op list \<Rightarrow> hub \<Rightarrow> hub" where
  "hub_run ops h = fold hub_step ops h"

text \<open>The frames a socket has been sent, oldest first.\<close>

definition outbox :: "nat \<Rightarrow> hub \<Rightarrow> event list" where
  "outbox ws h = map snd (filter (\<lambda>(w, m). w = ws) (sent h))"

fun by_socket :: "nat \<Rightarrow> hub_op \<Rightarrow> bool" where
  "by_socket ws (Broadcast pid m) = False"
| "by_socket ws (Message w uid msg) = (w = ws)"
| "by_socket ws (Close w) = (w = ws)"

fun events_for :: "js_id \<Rightarrow> hub_op list \<Rightarrow> event list" where
  "events_for pid [] = []"
| "events_for pid (Broadcast p m # ops) = (if p = pid then m # events_for pid ops else events_for pid ops)"
| "events_for pid (_ # ops) = events_for pid ops"


section \<open>Transactions and the process state\<close>

text \<open>
  A rolled-back transaction restores every table. Sequences are not transactional in
  PostgreSQL: the values drawn stay drawn.
\<close>

definition rollback :: "db \<Rightarrow> db \<Rightarrow> db" where
  "rollback d0 d =
     d0\<lparr>seq_tokens := seq_tokens d, seq_agents := seq_agents d, seq_projects := seq_projects d,
        seq_conversations := seq_conversations d, seq_messages := seq_messages d,
        seq_logs := seq_logs d\<rparr>"

definition commit :: "db \<Rightarrow> db" where
  "commit d = d\<lparr>commits := Suc (commits d)\<rparr>"

text \<open>\<^verbatim>\<open>db.tx(async t => ...)\<close> for a body that only touches the store.\<close>

definition tx_db :: "(db \<Rightarrow> db \<times> (thrown + 'a)) \<Rightarrow> db \<Rightarrow> db \<times> (thrown + 'a)" where
  "tx_db body d =
     (case body d of
        (d', Inl e) \<Rightarrow> (rollback d d', Inl e)
      | (d', Inr v) \<Rightarrow> (commit d', Inr v))"

text \<open>
  The API process: the store, the hub, and the nudges posted to the worker (the project
  id of each \<^verbatim>\<open>nudgeBrain\<close> call, oldest first).
\<close>

record app =
  a_db :: db
  a_hub :: hub
  a_nudges :: "js_id list"

text \<open>
  \<^verbatim>\<open>db.tx\<close> for a body that also broadcasts or nudges. What the body did to the hub and
  to the worker stays done when the transaction rolls back.
\<close>

definition tx :: "(app \<Rightarrow> app \<times> (thrown + 'a)) \<Rightarrow> app \<Rightarrow> app \<times> (thrown + 'a)" where
  "tx body a =
     (case body a of
        (a', Inl e) \<Rightarrow> (a'\<lparr>a_db := rollback (a_db a) (a_db a')\<rparr>, Inl e)
      | (a', Inr v) \<Rightarrow> (a'\<lparr>a_db := commit (a_db a')\<rparr>, Inr v))"

text \<open>The range of an INTEGER column; a value outside it makes the statement fail.\<close>

definition in_int4 :: "int \<Rightarrow> bool" where
  "in_int4 n \<longleftrightarrow> - 2147483648 \<le> n \<and> n \<le> 2147483647"

definition nudgeBrain :: "js_id \<Rightarrow> app \<Rightarrow> app" where
  "nudgeBrain projectId a = a\<lparr>a_nudges := a_nudges a @ [projectId]\<rparr>"

section \<open>Environment and project locks (env.js, projectLocks.js)\<close>

record env =
  demoUserId :: int
  demoTokenId :: int
  demoProjectId :: int
  snapshotProjectId :: int
  demoProjectLimit :: int

definition isDemoUser :: "env \<Rightarrow> int \<Rightarrow> bool" where
  "isDemoUser e userId \<longleftrightarrow> userId = demoUserId e"


definition isProtectedProject :: "env \<Rightarrow> int \<Rightarrow> int \<Rightarrow> bool" where
  "isProtectedProject e userId projectId \<longleftrightarrow>
     isDemoUser e userId \<and> (projectId = demoProjectId e \<or> projectId = snapshotProjectId e)"


definition isProtectedDemoToken :: "env \<Rightarrow> int \<Rightarrow> int \<Rightarrow> bool" where
  "isProtectedDemoToken e userId tokenId \<longleftrightarrow> isDemoUser e userId \<and> tokenId = demoTokenId e"

section \<open>Pause and budget (projectService.js, settingsService.js, settingsController.js)\<close>

definition project_by_id :: "db \<Rightarrow> int \<Rightarrow> project option" where
  "project_by_id d i = find (\<lambda>p. pr_id p = i) (projects d)"

text \<open>
  \<^verbatim>\<open>pauseProjectInternal\<close>: one transaction that sets the flag, inserts the log row and
  broadcasts. The log's foreign key needs the project to exist.
\<close>

definition pauseProjectInternal :: "js_id \<Rightarrow> string \<Rightarrow> string \<Rightarrow> app \<Rightarrow> app \<times> (thrown + unit)" where
  "pauseProjectInternal projectId code message =
     tx (\<lambda>a.
       let d = a_db a;
           d1 = d\<lparr>projects := map (\<lambda>p. if pr_id p = sql_int projectId then p\<lparr>pr_paused := True\<rparr> else p)
                                 (projects d),
                  seq_logs := seq_logs d + 1\<rparr>
       in if \<not> list_ex (\<lambda>p. pr_id p = sql_int projectId) (projects d1)
          then (a\<lparr>a_db := d1\<rparr>, Inl (DbError ''logs_project_id_fkey''))
          else (a\<lparr>a_db := d1\<lparr>logs := logs d1 @
                                [\<lparr>log_id = seq_logs d, log_project_id = sql_int projectId,
                                  log_level = ''warn'', log_message = message,
                                  log_code = Some code\<rparr>]\<rparr>,
                    a_hub := broadcastToProject projectId (Project_updated projectId None None) (a_hub a)\<rparr>,
                Inr ()))"



record dec_result =
  success :: bool
  newLimit :: "int option"

text \<open>
  \<^verbatim>\<open>settingsService.decrementMessageLimit\<close>: the UPDATE is issued on \<^verbatim>\<open>db\<close> and commits
  by itself; the broadcast follows; the pause, when due, is the separate transaction of
  \<open>pauseProjectInternal\<close>. The route hands the project id over as a string.
\<close>

definition decrementMessageLimit :: "js_id \<Rightarrow> app \<Rightarrow> app \<times> (thrown + dec_result)" where
  "decrementMessageLimit projectId a =
     (let d = a_db a;
          hit = (\<lambda>p. pr_id p = sql_int projectId)
      in if list_ex (\<lambda>p. hit p \<and> \<not> in_int4 (pr_message_limit p - 1)) (projects d)
         then (a, Inl (DbError ''integer out of range''))
         else
           let d1 = commit (d\<lparr>projects := map (\<lambda>p. if hit p then p\<lparr>pr_message_limit := pr_message_limit p - 1\<rparr>
                                                       else p) (projects d)\<rparr>)
           in case find hit (projects d1) of
                None \<Rightarrow> (a\<lparr>a_db := d1\<rparr>, Inr \<lparr>success = False, newLimit = None\<rparr>)
              | Some result \<Rightarrow>
                  let new = pr_message_limit result;
                      a1 = a\<lparr>a_db := d1,
                             a_hub := broadcastToProject (Number projectId)
                                        (Project_updated (Number projectId) (Some new)
                                           (if new \<le> 0 then Some True else None))
                                        (a_hub a)\<rparr>
                  in if new \<le> 0
                     then (case pauseProjectInternal projectId ''MESSAGE_LIMIT''
                                  ''Project paused automatically after reaching message limit.'' a1 of
                             (a2, Inl err) \<Rightarrow> (a2, Inl err)
                           | (a2, Inr u) \<Rightarrow> (a2, Inr \<lparr>success = True, newLimit = Some new\<rparr>))
                     else (a1, Inr \<lparr>success = True, newLimit = Some new\<rparr>))"

section \<open>Messages (messageService.js, messageController.js, messageRoutes.js)\<close>

text \<open>
  The argument object of \<^verbatim>\<open>createMessage\<close>. The source reads each field under two
  spellings; one field stands for both. \<open>None\<close> in \<open>md_senderId\<close> or \<open>md_receiverId\<close>
  is a value that is not a number; \<open>None\<close> in \<open>md_status\<close> is an absent status.
\<close>

record message_data =
  md_conversationId :: js_id
  md_projectId :: int
  md_senderId :: "int option"
  md_receiverId :: "int option"
  md_content :: string
  md_type :: string
  md_status :: "string option"

text \<open>
  A PostgreSQL text value cannot hold U+0000: a statement that carries one is rejected
  before it makes a row or draws from a sequence.
\<close>

definition has_nul :: "string \<Rightarrow> bool" where
  "has_nul s \<longleftrightarrow> CHR 0x00 \<in> set s"

definition nul_rejected :: thrown where
  "nul_rejected = DbError ''invalid byte sequence for encoding UTF8: 0x00''"

definition missing_ids :: thrown where
  "missing_ids = ThrownError ''Message creation failed: Missing required ID fields.''"

definition createMessage :: "nat \<Rightarrow> message_data \<Rightarrow> app \<Rightarrow> app \<times> (thrown + message)" where
  "createMessage now data a =
     (case (md_senderId data, md_receiverId data) of
        (Some senderId, Some receiverId) \<Rightarrow>
          if md_projectId data = 0 \<or> \<not> truthy (md_conversationId data) then (a, Inl missing_ids)
          else
            tx (\<lambda>a.
              let d = a_db a;
                  by_type = (if md_type data = ''user'' then ''pending'' else ''sent'');
                  status = (case md_status data of
                              None \<Rightarrow> by_type
                            | Some s \<Rightarrow> if s = [] then by_type else s);
                  newMessage = \<lparr>msg_id = seq_messages d,
                                msg_conversation_id = sql_int (md_conversationId data),
                                msg_project_id = md_projectId data,
                                msg_sender_id = senderId, msg_receiver_id = receiverId,
                                msg_type = md_type data, msg_status = status,
                                msg_content = md_content data, msg_created_at = now\<rparr>;
                  d1 = d\<lparr>seq_messages := seq_messages d + 1\<rparr>
              in if has_nul (md_content data) \<or> has_nul (md_type data) \<or> has_nul status
                 then (a, Inl nul_rejected)
                 else if \<not> list_ex (\<lambda>c. cv_id c = msg_conversation_id newMessage) (conversations d)
                 then (a\<lparr>a_db := d1\<rparr>, Inl (DbError ''messages_conversation_id_fkey''))
                 else if \<not> list_ex (\<lambda>p. pr_id p = msg_project_id newMessage) (projects d)
                 then (a\<lparr>a_db := d1\<rparr>, Inl (DbError ''messages_project_id_fkey''))
                 else
                   let d2 = d1\<lparr>messages := messages d1 @ [newMessage]\<rparr>;
                       d3 = d2\<lparr>projects := map (\<lambda>p. if pr_id p = md_projectId data
                                                      then p\<lparr>pr_last_activity_at := now\<rparr> else p)
                                                (projects d2)\<rparr>;
                       a1 = a\<lparr>a_db := d3,
                              a_hub := broadcastToProject (JNum (msg_project_id newMessage))
                                         (New_message newMessage) (a_hub a)\<rparr>
                   in (if msg_status newMessage = ''pending'' \<and> msg_type newMessage = ''user''
                       then nudgeBrain (JNum (msg_project_id newMessage)) a1 else a1,
                       Inr newMessage)) a
      | _ \<Rightarrow> (a, Inl missing_ids))"

definition getConversationParticipants :: "js_id \<Rightarrow> db \<Rightarrow> conversation option" where
  "getConversationParticipants conversationId d =
     find (\<lambda>c. cv_id c = sql_int conversationId) (conversations d)"

text \<open>
  The body of \<^verbatim>\<open>POST /messages/:conversationId\<close> after schema validation: a string
  \<open>b_content\<close> and an optional string \<open>b_type\<close>.
\<close>

record send_body =
  b_content :: string
  b_type :: "string option"

text \<open>
  The function that \<^verbatim>\<open>sendMessage\<close> hands to \<^verbatim>\<open>tryCatch\<close>. The conversation id is
  the route parameter, a string.
  Destructuring the \<^verbatim>\<open>null\<close> of a missing conversation raises a TypeError.
\<close>

definition sendMessage :: "nat \<Rightarrow> int \<Rightarrow> send_body \<Rightarrow> app \<Rightarrow> app \<times> (thrown + message)" where
  "sendMessage now conversationId body a =
     (let senderId = 0;
          type = (case b_type body of None \<Rightarrow> ''user'' | Some t \<Rightarrow> t)
      in case getConversationParticipants (JStr conversationId) (a_db a) of
           None \<Rightarrow> (a, Inl (ThrownError ''TypeError''))
         | Some c \<Rightarrow>
             let receiverId = (if cv_sender_id c = 0 then cv_receiver_id c else cv_sender_id c)
             in createMessage now
                  \<lparr>md_conversationId = JStr conversationId, md_projectId = cv_project_id c,
                   md_senderId = Some senderId, md_receiverId = Some receiverId,
                   md_content = b_content body, md_type = type, md_status = None\<rparr> a)"

text \<open>\<^verbatim>\<open>SYSTEM.MAX_MESSAGE_LENGTH\<close> of constants.js: "Maximum characters allowed per message".\<close>

definition MAX_MESSAGE_LENGTH :: nat where
  "MAX_MESSAGE_LENGTH = 2000"

text \<open>
  \<^verbatim>\<open>SendMessageSchema\<close>: \<^verbatim>\<open>content: z.string().min(1, 'Message cannot be empty')\<close> and an
  optional string \<^verbatim>\<open>type\<close>. The result is the first issue, if any.
\<close>

definition SendMessageSchema :: "send_body \<Rightarrow> string option" where
  "SendMessageSchema body =
     (if length (b_content body) < 1 then Some ''Message cannot be empty'' else None)"

text \<open>\<^verbatim>\<open>extractErrorMessage\<close>: the message of what was thrown; a status it carries is dropped.\<close>

fun extractErrorMessage :: "thrown \<Rightarrow> string" where
  "extractErrorMessage (ThrownStatus status message) = message"
| "extractErrorMessage (ThrownString message) = message"
| "extractErrorMessage (ThrownError message) = message"
| "extractErrorMessage (DbError message) = message"

text \<open>The message dictionary of messageMap.js, and \<^verbatim>\<open>getMessage\<close> of responseSender.js.\<close>

definition messageMap :: "(string \<times> string) list" where
  "messageMap =
     [(''auth.invalidToken'', ''Invalid or expired token.''),
      (''auth.missingToken'', ''Access denied. Token is missing.''),
      (''auth.failedLogin'', ''Incorrect email or password.''),
      (''auth.emailInUse'', ''This email is already registered.''),
      (''auth.registrationSuccess'', ''Registration successful.''),
      (''user.notFound'', ''User not found.''),
      (''token.notFound'', ''Token not found.''),
      (''token.invalid'', ''Token is invalid or inactive.''),
      (''token.addSuccess'', ''Token added successfully.''),
      (''token.deleteSuccess'', ''Token deleted successfully.''),
      (''token.protectedDemo'', ''This demo token cannot be deleted or disabled.''),
      (''agent.notFound'', ''Agent not found.''),
      (''agent.invalid'', ''Invalid agent data.''),
      (''agent.addSuccess'', ''Agent created successfully.''),
      (''agent.deleteSuccess'', ''Agent deleted.''),
      (''project.notFound'', ''Project not found.''),
      (''project.createSuccess'', ''Project created successfully.''),
      (''project.deleteSuccess'', ''Project deleted.''),
      (''project.protectedDemo'', ''This demo project cannot be deleted.''),
      (''project.snapshotLocked'', ''This snapshot project cannot be continued.''),
      (''project.snapshotModified'', ''Snapshot project cannot be modified.''),
      (''project.limitExceeded'',
       ''You cannot set the message limit above the allowed threshold for the demo project.''),
      (''conversation.notFound'', ''Conversation not found.''),
      (''message.invalidType'', ''Invalid message type.''),
      (''message.queueAccepted'', ''Message queued.''),
      (''message.sendSuccess'', ''Message sent successfully.''),
      (''error.unexpected'', ''An unexpected error occurred.''),
      (''error.missingFields'', ''Required fields are missing.''),
      (''error.forbidden'', ''You are not authorized to perform this action.''),
      (''error.notFound'', ''Requested resource was not found.''),
      (''project.tokenSwitched'', ''Project token updated successfully.'')]"

definition getMessage :: "string \<Rightarrow> string" where
  "getMessage msg =
     (if msg = [] then ''OK''
      else case map_of messageMap msg of None \<Rightarrow> msg | Some text \<Rightarrow> text)"

text \<open>
  What a route answers. \<open>Rejected\<close> is \<^verbatim>\<open>resError(res, message, 422)\<close> of
  \<^verbatim>\<open>validateInput\<close>. \<open>Failed\<close> is \<^verbatim>\<open>resError(res, message)\<close> of \<^verbatim>\<open>tryCatch\<close> after the
  handler threw: no status is passed, so the default 500 goes out. \<open>Done\<close> is the answer
  with the handler's data. \<open>Rejected\<close> and \<open>Failed\<close> carry the message sent.
\<close>

datatype 'a reply = Rejected string | Failed string | Done 'a

fun http_status :: "'a reply \<Rightarrow> int" where
  "http_status (Rejected message) = 422"
| "http_status (Failed message) = 500"
| "http_status (Done data) = 200"

definition tryCatch :: "'s \<times> (thrown + 'a) \<Rightarrow> 's \<times> 'a reply" where
  "tryCatch r =
     (case r of
        (s, Inl err) \<Rightarrow> (s, Failed (getMessage (extractErrorMessage err)))
      | (s, Inr data) \<Rightarrow> (s, Done data))"

definition route_sendMessage :: "nat \<Rightarrow> int \<Rightarrow> send_body \<Rightarrow> app \<Rightarrow> app \<times> message reply" where
  "route_sendMessage now conversationId body a =
     (case SendMessageSchema body of
        Some issue \<Rightarrow> (a, Rejected (getMessage issue))
      | None \<Rightarrow> tryCatch (sendMessage now conversationId body a))"

text \<open>
  \<^verbatim>\<open>getPendingMessages\<close>: the rows of the project with status pending,
  \<^verbatim>\<open>ORDER BY created_at ASC\<close>. SQL fixes the order of the keys and nothing else: rows
  with equal keys come out as the executor's scan and sort leave them. \<open>arrange\<close> stands
  for that: the order in which the selected rows reach the final ordering by key.
\<close>

definition getPendingMessages :: "(message list \<Rightarrow> message list) \<Rightarrow> js_id \<Rightarrow> db \<Rightarrow> message list" where
  "getPendingMessages arrange projectId d =
     sort_key msg_created_at
       (arrange (filter (\<lambda>m. msg_project_id m = sql_int projectId \<and> msg_status m = ''pending'')
                   (messages d)))"

section \<open>Conversations and projects (conversationService.js, projectService.js)\<close>

text \<open>
  An INSERT into \<open>conversations\<close> under the table's constraints:
  \<^verbatim>\<open>CHECK (sender_id <= receiver_id)\<close>, \<^verbatim>\<open>UNIQUE (project_id, sender_id, receiver_id)\<close>
  and the foreign key to \<open>projects\<close>. With \<open>on_conflict\<close> the statement carries
  \<^verbatim>\<open>ON CONFLICT DO NOTHING\<close> and a duplicate inserts no row. The sequence advances in
  every case.
\<close>

definition insert_conversation ::
    "bool \<Rightarrow> int \<Rightarrow> int \<Rightarrow> int \<Rightarrow> db \<Rightarrow> db \<times> (thrown + conversation option)" where
  "insert_conversation on_conflict p s r d =
     (let row = \<lparr>cv_id = seq_conversations d, cv_project_id = p, cv_sender_id = s, cv_receiver_id = r\<rparr>;
          d1 = d\<lparr>seq_conversations := seq_conversations d + 1\<rparr>
      in if \<not> s \<le> r then (d1, Inl (DbError ''conversations_check''))
         else if list_ex (\<lambda>c. cv_project_id c = p \<and> cv_sender_id c = s \<and> cv_receiver_id c = r)
                   (conversations d)
         then (if on_conflict then (d1, Inr None)
               else (d1, Inl (DbError ''conversations_project_id_sender_id_receiver_id_key'')))
         else if \<not> list_ex (\<lambda>q. pr_id q = p) (projects d)
         then (d1, Inl (DbError ''conversations_project_id_fkey''))
         else (d1\<lparr>conversations := conversations d1 @ [row]\<rparr>, Inr (Some row)))"

text \<open>
  \<^verbatim>\<open>conversationService.createConversation\<close>: the sender column receives the id of the
  authenticated user. The statement is issued on \<^verbatim>\<open>db\<close> with \<^verbatim>\<open>db.one\<close>, which rejects
  a result without a row.
\<close>

definition createConversation :: "int \<Rightarrow> js_id \<Rightarrow> int \<Rightarrow> db \<Rightarrow> db \<times> (thrown + conversation)" where
  "createConversation userId projectId receiverId d =
     (if \<not> in_int4 receiverId then (d, Inl (DbError ''integer out of range''))
      else case insert_conversation False (sql_int projectId) userId receiverId d of
             (d1, Inl err) \<Rightarrow> (d1, Inl err)
           | (d1, Inr None) \<Rightarrow> (d1, Inl (DbError ''No data returned from the query.''))
           | (d1, Inr (Some row)) \<Rightarrow> (commit d1, Inr row))"

text \<open>An inline agent definition of \<^verbatim>\<open>POST /projects\<close>, and an entry of \<^verbatim>\<open>memberList\<close>.\<close>

record agent_input =
  ai_name :: string
  ai_role :: string
  ai_description :: string
  ai_model :: string
  ai_prompt :: "string option"
  ai_canMessageIds :: "int list option"

record member_entry =
  me_agentId :: int
  me_role :: string
  me_prompt :: string
  me_canMessageIndexes :: "int list"
  me_threadId :: "string option"

text \<open>The first loop: one agent row and one member entry per inline agent.\<close>

fun insert_agents :: "int \<Rightarrow> agent_input list \<Rightarrow> db \<Rightarrow> db \<times> int list \<times> member_entry list" where
  "insert_agents userId [] d = (d, [], [])"
| "insert_agents userId (a # as) d =
     (let agentRow = \<lparr>ag_id = seq_agents d, ag_user_id = Some userId, ag_name = ai_name a,
                      ag_role = ai_role a, ag_description = ai_description a, ag_model = ai_model a\<rparr>;
          d1 = d\<lparr>agents := agents d @ [agentRow], seq_agents := seq_agents d + 1\<rparr>;
          entry = \<lparr>me_agentId = ag_id agentRow, me_role = ai_role a,
                   me_prompt = (case ai_prompt a of
                                  None \<Rightarrow> ai_description a
                                | Some p \<Rightarrow> if p = [] then ai_description a else p),
                   me_canMessageIndexes = (case ai_canMessageIds a of None \<Rightarrow> [] | Some is \<Rightarrow> is),
                   me_threadId = None\<rparr>
      in case insert_agents userId as d1 of
           (d2, ids, entries) \<Rightarrow> (d2, ag_id agentRow # ids, entry # entries))"

text \<open>\<^verbatim>\<open>indexToIdMap[i]\<close>: undefined outside the indexes of the inline agents.\<close>

definition index_lookup :: "int list \<Rightarrow> int \<Rightarrow> int option" where
  "index_lookup ids i = (if 0 \<le> i \<and> i < int (length ids) then Some (ids ! nat i) else None)"

definition insert_member :: "project_agent_member \<Rightarrow> db \<Rightarrow> db \<times> (thrown + unit)" where
  "insert_member row d =
     (if list_ex (\<lambda>m. pam_project_id m = pam_project_id row \<and> pam_agent_id m = pam_agent_id row)
           (project_agent_members d)
      then (d, Inl (DbError ''project_agent_members_pkey''))
      else if \<not> list_ex (\<lambda>p. pr_id p = pam_project_id row) (projects d)
      then (d, Inl (DbError ''project_agent_members_project_id_fkey''))
      else if \<not> list_ex (\<lambda>g. ag_id g = pam_agent_id row) (agents d)
      then (d, Inl (DbError ''project_agent_members_agent_id_fkey''))
      else (d\<lparr>project_agent_members := project_agent_members d @ [row]\<rparr>, Inr ()))"

text \<open>The inner loop over \<^verbatim>\<open>canMessageIds\<close>, threading the set \<^verbatim>\<open>createdPairs\<close>.\<close>

fun insert_pairs ::
    "int \<Rightarrow> int \<Rightarrow> int list \<Rightarrow> (int \<times> int) list \<Rightarrow> db \<Rightarrow> (db \<times> (int \<times> int) list) \<times> (thrown + unit)" where
  "insert_pairs p agentId [] createdPairs d = ((d, createdPairs), Inr ())"
| "insert_pairs p agentId (otherId # rest) createdPairs d =
     (let sid = min agentId otherId;
          rid = max agentId otherId
      in if (sid, rid) \<in> set createdPairs then insert_pairs p agentId rest createdPairs d
         else case insert_conversation True p sid rid d of
                (d1, Inl err) \<Rightarrow> ((d1, createdPairs), Inl err)
              | (d1, Inr _) \<Rightarrow> insert_pairs p agentId rest (createdPairs @ [(sid, rid)]) d1)"

text \<open>The outer loop over \<^verbatim>\<open>memberList\<close>.\<close>

fun insert_members ::
    "int \<Rightarrow> int list \<Rightarrow> member_entry list \<Rightarrow> (int \<times> int) list \<Rightarrow> db \<Rightarrow> db \<times> (thrown + unit)" where
  "insert_members p ids [] createdPairs d = (d, Inr ())"
| "insert_members p ids (member # rest) createdPairs d =
     (let canMessageIds = filter (\<lambda>i. i \<noteq> me_agentId member)
                            (List.map_filter (index_lookup ids) (me_canMessageIndexes member))
      in case insert_member \<lparr>pam_project_id = p, pam_agent_id = me_agentId member,
                             pam_role = me_role member, pam_prompt = me_prompt member,
                             pam_can_message_ids = canMessageIds,
                             pam_thread_id = me_threadId member\<rparr> d of
           (d1, Inl err) \<Rightarrow> (d1, Inl err)
         | (d1, Inr _) \<Rightarrow>
             (case insert_pairs p (me_agentId member) canMessageIds createdPairs d1 of
                ((d2, created), Inl err) \<Rightarrow> (d2, Inl err)
              | ((d2, created), Inr _) \<Rightarrow> insert_members p ids rest created d2))"

text \<open>
  \<^verbatim>\<open>createProjectWithMembers\<close>, one transaction. \<open>tokenId\<close> is \<open>None\<close> for
  \<^verbatim>\<open>null\<close>; the number 0 is falsy as well.
\<close>

definition createProjectWithMembers ::
    "nat \<Rightarrow> int \<Rightarrow> string \<Rightarrow> string \<Rightarrow> string \<Rightarrow> agent_input list \<Rightarrow> int option \<Rightarrow> db
       \<Rightarrow> db \<times> (thrown + project)" where
  "createProjectWithMembers now userId title description systemPrompt agentList tokenId =
     tx_db (\<lambda>d.
       if list_ex (\<lambda>p. pr_user_id p = userId \<and> pr_title p = title) (projects d)
       then (d, Inl (ThrownError ''A project with this title already exists.''))
       else
         let project = \<lparr>pr_id = seq_projects d, pr_user_id = userId, pr_title = title,
                         pr_description = description, pr_system_prompt = systemPrompt,
                         pr_paused = True, pr_message_limit = 0, pr_last_activity_at = now\<rparr>;
             d1 = d\<lparr>projects := projects d @ [project], seq_projects := seq_projects d + 1\<rparr>;
             bound = (case tokenId of
                        None \<Rightarrow> (d1, Inr ())
                      | Some t \<Rightarrow>
                          if t = 0 then (d1, Inr ())
                          else if \<not> list_ex (\<lambda>k. tok_id k = t) (tokens d1)
                          then (d1, Inl (DbError ''project_tokens_token_id_fkey''))
                          else (d1\<lparr>project_tokens := project_tokens d1 @
                                      [\<lparr>pt_project_id = pr_id project, pt_token_id = Some t\<rparr>]\<rparr>,
                                Inr ()))
         in case bound of
              (d2, Inl err) \<Rightarrow> (d2, Inl err)
            | (d2, Inr _) \<Rightarrow>
                (case insert_agents userId agentList d2 of
                   (d3, indexToIdMap, entries) \<Rightarrow>
                     let memberList = entries @
                           [\<lparr>me_agentId = 0, me_role = ''system'',
                             me_prompt = ''System agent: logs, system prompts, and control'',
                             me_canMessageIndexes = map int [0..<length indexToIdMap],
                             me_threadId = Some ''system''\<rparr>]
                     in case insert_members (pr_id project) indexToIdMap memberList [] d3 of
                          (d4, Inl err) \<Rightarrow> (d4, Inl err)
                        | (d4, Inr _) \<Rightarrow> (d4, Inr project)))"

section \<open>Deleting a project (projectService.js, projectController.js)\<close>

text \<open>
  \<^verbatim>\<open>DELETE FROM projects WHERE id = $1 AND user_id = $2\<close> with the cascades of the
  schema: bindings, memberships, conversations, logs and summaries of the project go, and
  so do the messages of the project and of its conversations.
\<close>

definition delete_project_rows :: "int \<Rightarrow> int \<Rightarrow> db \<Rightarrow> db" where
  "delete_project_rows projectId userId d =
     (let gone = map cv_id (filter (\<lambda>c. cv_project_id c = projectId) (conversations d))
      in d\<lparr>projects := filter (\<lambda>p. \<not> (pr_id p = projectId \<and> pr_user_id p = userId)) (projects d),
            project_tokens := filter (\<lambda>b. pt_project_id b \<noteq> projectId) (project_tokens d),
            project_agent_members :=
              filter (\<lambda>m. pam_project_id m \<noteq> projectId) (project_agent_members d),
            conversations := filter (\<lambda>c. cv_project_id c \<noteq> projectId) (conversations d),
            messages := filter (\<lambda>m. msg_project_id m \<noteq> projectId \<and> msg_conversation_id m \<notin> set gone)
                          (messages d),
            logs := filter (\<lambda>l. log_project_id l \<noteq> projectId) (logs d),
            agent_history_summaries :=
              filter (\<lambda>h. ahs_project_id h \<noteq> projectId) (agent_history_summaries d)\<rparr>)"

text \<open>
  \<^verbatim>\<open>DELETE FROM agents WHERE id IN (...) AND user_id = $2\<close>; memberships and summaries
  of a deleted agent cascade.
\<close>

definition delete_agent_rows :: "int list \<Rightarrow> int \<Rightarrow> db \<Rightarrow> db" where
  "delete_agent_rows ids userId d =
     (let doomed = (\<lambda>g. ag_id g \<in> set ids \<and> ag_user_id g = Some userId);
          gone = map ag_id (filter doomed (agents d))
      in d\<lparr>agents := filter (\<lambda>g. \<not> doomed g) (agents d),
            project_agent_members :=
              filter (\<lambda>m. pam_agent_id m \<notin> set gone) (project_agent_members d),
            agent_history_summaries :=
              filter (\<lambda>h. ahs_agent_id h \<notin> set gone) (agent_history_summaries d)\<rparr>)"

definition projectService_deleteProject :: "int \<Rightarrow> int \<Rightarrow> db \<Rightarrow> db \<times> (thrown + bool)" where
  "projectService_deleteProject projectId userId =
     tx_db (\<lambda>d.
       let agentIdsToDelete =
             map pam_agent_id
               (filter (\<lambda>m. pam_project_id m = projectId \<and> pam_agent_id m \<noteq> 0)
                  (project_agent_members d))
       in if \<not> list_ex (\<lambda>p. pr_id p = projectId \<and> pr_user_id p = userId) (projects d)
          then (d, Inl (ThrownError ''Project not found or user not authorized.''))
          else
            let d1 = delete_project_rows projectId userId d
            in (if agentIdsToDelete \<noteq> [] then delete_agent_rows agentIdsToDelete userId d1 else d1,
                Inr True))"

text \<open>
  The function that the handler of \<^verbatim>\<open>DELETE /projects/:id\<close> hands to \<^verbatim>\<open>tryCatch\<close>;
  \<open>projectId\<close> is \<^verbatim>\<open>Number(req.params.id)\<close>.
\<close>

definition projectController_deleteProject ::
    "env \<Rightarrow> int \<Rightarrow> int \<Rightarrow> db \<Rightarrow> db \<times> (thrown + unit)" where
  "projectController_deleteProject e projectId userId d =
     (if isProtectedProject e userId projectId
      then (d, Inl (ThrownStatus 403 ''project.protectedDemo''))
      else case projectService_deleteProject projectId userId d of
             (d1, Inl err) \<Rightarrow> (d1, Inl err)
           | (d1, Inr deleted) \<Rightarrow>
               if \<not> deleted then (d1, Inl (ThrownString ''project.notFound''))
               else (d1, Inr ()))"

section \<open>Tokens (tokenService.js, tokenController.js, encrypt.js)\<close>

definition token_in_use :: thrown where
  "token_in_use = ThrownError ''Cannot delete: token is used in a project.''"

text \<open>
  \<^verbatim>\<open>tokenService.deleteToken\<close>: a SELECT on the bindings, then a DELETE issued on
  \<^verbatim>\<open>db\<close>. A binding that pointed at a deleted token is set to NULL by the schema.
\<close>

definition tokenService_deleteToken :: "int \<Rightarrow> int \<Rightarrow> db \<Rightarrow> db \<times> (thrown + bool)" where
  "tokenService_deleteToken tokenId userId d =
     (if list_ex (\<lambda>b. pt_token_id b = Some tokenId) (project_tokens d)
      then (d, Inl token_in_use)
      else
        let hit = (\<lambda>t. tok_id t = tokenId \<and> tok_user_id t = userId);
            result = list_ex hit (tokens d)
        in (commit (d\<lparr>tokens := filter (\<lambda>t. \<not> hit t) (tokens d),
                       project_tokens :=
                         map (\<lambda>b. if result \<and> pt_token_id b = Some tokenId
                                   then b\<lparr>pt_token_id := None\<rparr> else b)
                           (project_tokens d)\<rparr>),
            Inr result))"

text \<open>
  The function that \<^verbatim>\<open>tokenController.deleteToken\<close> hands to \<^verbatim>\<open>tryCatch\<close>;
  \<open>tokenId\<close> is \<^verbatim>\<open>Number(req.params.id)\<close>.
\<close>

definition deleteToken_handler :: "env \<Rightarrow> int \<Rightarrow> int \<Rightarrow> db \<Rightarrow> db \<times> (thrown + unit)" where
  "deleteToken_handler e tokenId userId d =
     (if isProtectedDemoToken e userId tokenId
      then (d, Inl (ThrownStatus 403 ''token.protectedDemo''))
      else case tokenService_deleteToken tokenId userId d of
             (d1, Inl err) \<Rightarrow> (d1, Inl err)
           | (d1, Inr deleted) \<Rightarrow>
               if \<not> deleted then (d1, Inl (ThrownString ''token.notFound''))
               else (d1, Inr ()))"

text \<open>\<^verbatim>\<open>tokenController.deleteToken\<close>, the handler of \<^verbatim>\<open>DELETE /tokens/:id\<close>.\<close>

definition tokenController_deleteToken :: "env \<Rightarrow> int \<Rightarrow> int \<Rightarrow> db \<Rightarrow> db \<times> unit reply" where
  "tokenController_deleteToken e tokenId userId d = tryCatch (deleteToken_handler e tokenId userId d)"

subsection \<open>Encryption of token secrets\<close>






text \<open>
  The AES-256-CBC primitive of Node's \<^verbatim>\<open>crypto\<close> module is a parameter: \<open>enc key iv\<close>
  is what \<^verbatim>\<open>cipher.update\<close> and \<^verbatim>\<open>cipher.final\<close> produce together, \<open>dec key iv\<close> is the
  decipher, \<open>None\<close> when \<^verbatim>\<open>final\<close> throws.
\<close>

record cipher =
  enc :: "string \<Rightarrow> string \<Rightarrow> string \<Rightarrow> string"
  dec :: "string \<Rightarrow> string \<Rightarrow> string \<Rightarrow> string option"





section \<open>Properties and example states\<close>

text \<open>
  Conversation uniqueness as the specification words it: for every project and every
  unordered pair at most one row, and every row ordered.
\<close>

definition pair_rows :: "db \<Rightarrow> int \<Rightarrow> int \<Rightarrow> int \<Rightarrow> conversation list" where
  "pair_rows d p x y =
     filter (\<lambda>c. cv_project_id c = p \<and> {cv_sender_id c, cv_receiver_id c} = {x, y}) (conversations d)"

definition conversation_unique :: "db \<Rightarrow> bool" where
  "conversation_unique d \<longleftrightarrow>
     (\<forall>p x y. length (pair_rows d p x y) \<le> 1) \<and>
     (\<forall>c \<in> set (conversations d). cv_sender_id c \<le> cv_receiver_id c)"

text \<open>The same property as the two constraints of the table state it.\<close>

definition conv_key :: "conversation \<Rightarrow> int \<times> int \<times> int" where
  "conv_key c = (cv_project_id c, cv_sender_id c, cv_receiver_id c)"

definition conv_ok :: "conversation list \<Rightarrow> bool" where
  "conv_ok cs \<longleftrightarrow> list_all (\<lambda>c. cv_sender_id c \<le> cv_receiver_id c) cs \<and> distinct (map conv_key cs)"

text \<open>Ties on \<open>created_at\<close> broken by ascending id.\<close>

definition ties_by_id :: "message list \<Rightarrow> bool" where
  "ties_by_id ms \<longleftrightarrow>
     sorted_wrt (\<lambda>m n. msg_created_at m = msg_created_at n \<longrightarrow> msg_id m \<le> msg_id n) ms"

text \<open>A socket that is open and registered for a project in a well-formed client map.\<close>

definition subscribed :: "nat \<Rightarrow> int \<Rightarrow> js_id \<Rightarrow> hub \<Rightarrow> bool" where
  "subscribed ws uid N h \<longleftrightarrow>
     distinct (map fst (clients h)) \<and> ws \<in> ready h \<and>
     map_of (clients h) ws = Some \<lparr>c_projectId = N, c_userId = uid\<rparr>"

definition join_frame :: "js_id \<Rightarrow> frame option" where
  "join_frame N = Some \<lparr>f_type = ''join'', f_projectId = Some N\<rparr>"

text \<open>
  An example deployment. User 1 is the demo user with the protected token 1 bound to
  project 1. User 10 owns project 100 (running, budget 1) with agents 1 and 2, the tokens
  2 (unbound) and 3 (bound to project 100).
\<close>

definition demo_env :: env where
  "demo_env = \<lparr>demoUserId = 1, demoTokenId = 1, demoProjectId = 1, snapshotProjectId = 2,
               demoProjectLimit = 50\<rparr>"

definition demo_db :: db where
  "demo_db =
     \<lparr>tokens =
        [\<lparr>tok_id = 1, tok_user_id = 1, tok_name = ''demo'', tok_api_key = ''00:00'', tok_active = True\<rparr>,
         \<lparr>tok_id = 2, tok_user_id = 10, tok_name = ''spare'', tok_api_key = ''00:00'', tok_active = True\<rparr>,
         \<lparr>tok_id = 3, tok_user_id = 10, tok_name = ''main'', tok_api_key = ''00:00'', tok_active = True\<rparr>],
      agents =
        [\<lparr>ag_id = 0, ag_user_id = None, ag_name = ''System'', ag_role = ''system'',
          ag_description = ''Internal system agent'', ag_model = ''System''\<rparr>,
         \<lparr>ag_id = 1, ag_user_id = Some 10, ag_name = ''A'', ag_role = ''dev'',
          ag_description = ''a'', ag_model = ''gpt-4o''\<rparr>,
         \<lparr>ag_id = 2, ag_user_id = Some 10, ag_name = ''B'', ag_role = ''qa'',
          ag_description = ''b'', ag_model = ''gpt-4o''\<rparr>,
         \<lparr>ag_id = 3, ag_user_id = Some 1, ag_name = ''D'', ag_role = ''guide'',
          ag_description = ''d'', ag_model = ''gpt-4o''\<rparr>],
      projects =
        [\<lparr>pr_id = 1, pr_user_id = 1, pr_title = ''Demo'', pr_description = [], pr_system_prompt = [],
          pr_paused = True, pr_message_limit = 0, pr_last_activity_at = 0\<rparr>,
         \<lparr>pr_id = 100, pr_user_id = 10, pr_title = ''P'', pr_description = [], pr_system_prompt = [],
          pr_paused = False, pr_message_limit = 1, pr_last_activity_at = 0\<rparr>],
      project_tokens =
        [\<lparr>pt_project_id = 1, pt_token_id = Some 1\<rparr>, \<lparr>pt_project_id = 100, pt_token_id = Some 3\<rparr>],
      project_agent_members =
        [\<lparr>pam_project_id = 1, pam_agent_id = 3, pam_role = ''guide'', pam_prompt = ''d'',
          pam_can_message_ids = [], pam_thread_id = None\<rparr>,
         \<lparr>pam_project_id = 1, pam_agent_id = 0, pam_role = ''system'', pam_prompt = [],
          pam_can_message_ids = [3], pam_thread_id = Some ''system''\<rparr>,
         \<lparr>pam_project_id = 100, pam_agent_id = 1, pam_role = ''dev'', pam_prompt = ''a'',
          pam_can_message_ids = [2], pam_thread_id = None\<rparr>,
         \<lparr>pam_project_id = 100, pam_agent_id = 2, pam_role = ''qa'', pam_prompt = ''b'',
          pam_can_message_ids = [1], pam_thread_id = None\<rparr>,
         \<lparr>pam_project_id = 100, pam_agent_id = 0, pam_role = ''system'', pam_prompt = [],
          pam_can_message_ids = [1, 2], pam_thread_id = Some ''system''\<rparr>],
      conversations =
        [\<lparr>cv_id = 5, cv_project_id = 1, cv_sender_id = 0, cv_receiver_id = 3\<rparr>,
         \<lparr>cv_id = 7, cv_project_id = 100, cv_sender_id = 0, cv_receiver_id = 1\<rparr>,
         \<lparr>cv_id = 8, cv_project_id = 100, cv_sender_id = 1, cv_receiver_id = 2\<rparr>,
         \<lparr>cv_id = 9, cv_project_id = 100, cv_sender_id = 0, cv_receiver_id = 2\<rparr>],
      messages = [],
      logs = [],
      agent_history_summaries =
        [\<lparr>ahs_agent_id = 1, ahs_project_id = 100, ahs_summary = ''s'', ahs_message_count = 0,
          ahs_summary_count = 0\<rparr>,
         \<lparr>ahs_agent_id = 3, ahs_project_id = 1, ahs_summary = ''t'', ahs_message_count = 0,
          ahs_summary_count = 0\<rparr>],
      seq_tokens = 4, seq_agents = 4, seq_projects = 101, seq_conversations = 10,
      seq_messages = 1, seq_logs = 1, commits = 0\<rparr>"

definition demo_hub :: hub where
  "demo_hub = \<lparr>clients = [(1, \<lparr>c_projectId = JNum 1, c_userId = 1\<rparr>)],
               pendingMessages = [(JNum 100, [Project_updated (JNum 100) (Some 1) None])],
               ready = {1, 2}, sent = []\<rparr>"

definition demo_app :: app where
  "demo_app = \<lparr>a_db = demo_db, a_hub = demo_hub, a_nudges = []\<rparr>"

text \<open>Two pending messages of project 100 with one timestamp, listed with id 2 before id 1.\<close>

definition tied_messages :: "message list" where
  "tied_messages =
     [\<lparr>msg_id = 2, msg_conversation_id = 8, msg_project_id = 100, msg_sender_id = 1,
       msg_receiver_id = 2, msg_type = ''assistant'', msg_status = ''pending'',
       msg_content = ''second'', msg_created_at = 5\<rparr>,
      \<lparr>msg_id = 1, msg_conversation_id = 7, msg_project_id = 100, msg_sender_id = 0,
       msg_receiver_id = 1, msg_type = ''user'', msg_status = ''pending'',
       msg_content = ''first'', msg_created_at = 5\<rparr>]"


text \<open>The state right after the UPDATE of \<open>decrementMessageLimit\<close> and its broadcast.\<close>

definition decremented :: "js_id \<Rightarrow> app \<Rightarrow> int \<Rightarrow> app" where
  "decremented projectId a new =
     a\<lparr>a_db := commit ((a_db a)\<lparr>projects :=
                 map (\<lambda>p. if pr_id p = sql_int projectId then p\<lparr>pr_message_limit := pr_message_limit p - 1\<rparr> else p)
                   (projects (a_db a))\<rparr>),
       a_hub := broadcastToProject (Number projectId)
                  (Project_updated (Number projectId) (Some new) (if new \<le> 0 then Some True else None))
                  (a_hub a)\<rparr>"

text \<open>
  The agents that deleting project \<open>projectId\<close> as user \<open>userId\<close> removes: the
  non-System members of the project that the user owns.
\<close>

definition member_agent_ids :: "db \<Rightarrow> int \<Rightarrow> int list" where
  "member_agent_ids d projectId =
     map pam_agent_id
       (filter (\<lambda>m. pam_project_id m = projectId \<and> pam_agent_id m \<noteq> 0) (project_agent_members d))"

definition cleaned_up :: "db \<Rightarrow> int \<Rightarrow> int \<Rightarrow> agent \<Rightarrow> bool" where
  "cleaned_up d projectId userId g \<longleftrightarrow>
     ag_id g \<in> set (member_agent_ids d projectId) \<and> ag_user_id g = Some userId"

text \<open>
  The ordered pairs that have a conversation in a project, and the ordered pairs that the
  stored memberships of the project allow: each member with each agent it may address.
\<close>

definition project_pairs :: "db \<Rightarrow> int \<Rightarrow> (int \<times> int) set" where
  "project_pairs d p =
     (\<lambda>c. (cv_sender_id c, cv_receiver_id c)) ` {c \<in> set (conversations d). cv_project_id c = p}"

definition member_pairs :: "db \<Rightarrow> int \<Rightarrow> (int \<times> int) set" where
  "member_pairs d p =
     (\<Union>m \<in> {m \<in> set (project_agent_members d). pam_project_id m = p}.
        (\<lambda>other. (min (pam_agent_id m) other, max (pam_agent_id m) other)) ` set (pam_can_message_ids m))"

text \<open>No conversation and no membership refers to the project id the sequence gives next.\<close>

definition next_project_unused :: "db \<Rightarrow> bool" where
  "next_project_unused d \<longleftrightarrow>
     list_all (\<lambda>c. cv_project_id c \<noteq> seq_projects d) (conversations d) \<and>
     list_all (\<lambda>m. pam_project_id m \<noteq> seq_projects d) (project_agent_members d)"

text \<open>Two inline agents for a new project: X may address Y, Y may address X and index 5.\<close>

definition demo_agents :: "agent_input list" where
  "demo_agents =
     [\<lparr>ai_name = ''X'', ai_role = ''dev'', ai_description = ''x'', ai_model = ''gpt-4o'',
        ai_prompt = None, ai_canMessageIds = Some [1]\<rparr>,
      \<lparr>ai_name = ''Y'', ai_role = ''qa'', ai_description = ''y'', ai_model = ''gpt-4o'',
        ai_prompt = Some ''be brief'', ai_canMessageIds = Some [0, 5]\<rparr>]"

text \<open>
  A messages table: the two tied messages, an earlier pending message of project 100, a
  pending message of project 1 and a sent message of project 100.
\<close>

definition busy_messages :: "message list" where
  "busy_messages =
     tied_messages @
     [\<lparr>msg_id = 3, msg_conversation_id = 8, msg_project_id = 100, msg_sender_id = 2,
       msg_receiver_id = 1, msg_type = ''assistant'', msg_status = ''pending'',
       msg_content = ''third'', msg_created_at = 4\<rparr>,
      \<lparr>msg_id = 4, msg_conversation_id = 5, msg_project_id = 1, msg_sender_id = 0,
       msg_receiver_id = 3, msg_type = ''user'', msg_status = ''pending'',
       msg_content = ''other project'', msg_created_at = 1\<rparr>,
      \<lparr>msg_id = 5, msg_conversation_id = 8, msg_project_id = 100, msg_sender_id = 2,
       msg_receiver_id = 1, msg_type = ''assistant'', msg_status = ''sent'',
       msg_content = ''done'', msg_created_at = 2\<rparr>]"

text \<open>The example process after socket 2 of user 10 has joined project 100 by its number.\<close>

definition joined_app :: app where
  "joined_app = demo_app\<lparr>a_hub := on_message 2 10 (join_frame (JNum 100)) demo_hub\<rparr>"

section \<open>Conversation uniqueness\<close>

lemma distinct_key_filter:
  "distinct (map f xs) \<Longrightarrow> length (filter (\<lambda>x. f x = k) xs) \<le> 1"
proof (induction xs)
  case Nil
  then show ?case by simp
next
  case (Cons x xs)
  show ?case
  proof (cases "f x = k")
    case True
    from Cons.prems have "f x \<notin> f ` set xs" by simp
    with True have "\<forall>y \<in> set xs. f y \<noteq> k" by blast
    then have "filter (\<lambda>x. f x = k) xs = []" by (simp add: filter_empty_conv)
    with True show ?thesis by simp
  next
    case False
    with Cons show ?thesis by simp
  qed
qed

lemma ordered_pair_key:
  assumes "cv_sender_id c \<le> cv_receiver_id c"
  shows "(cv_project_id c = p \<and> {cv_sender_id c, cv_receiver_id c} = {x, y})
           \<longleftrightarrow> conv_key c = (p, min x y, max x y)"
  using assms by (auto simp: conv_key_def doubleton_eq_iff min_def max_def)

lemma conv_ok_unique:
  assumes "conv_ok (conversations d)"
  shows "conversation_unique d"
proof -
  from assms have o: "\<forall>c \<in> set (conversations d). cv_sender_id c \<le> cv_receiver_id c"
    and k: "distinct (map conv_key (conversations d))"
    by (simp_all add: conv_ok_def list_all_iff)
  have "length (pair_rows d p x y) \<le> 1" for p x y
  proof -
    have "pair_rows d p x y = filter (\<lambda>c. conv_key c = (p, min x y, max x y)) (conversations d)"
      unfolding pair_rows_def using o by (intro filter_cong refl ordered_pair_key) simp
    then show ?thesis using distinct_key_filter [OF k] by simp
  qed
  with o show ?thesis by (simp add: conversation_unique_def)
qed

lemma unique_rows_distinct:
  assumes "\<And>p x y. length (filter (\<lambda>c. cv_project_id c = p \<and> {cv_sender_id c, cv_receiver_id c} = {x, y}) cs) \<le> 1"
  shows "distinct (map conv_key cs)"
  using assms
proof (induction cs)
  case Nil
  then show ?case by simp
next
  case (Cons c cs)
  let ?Q = "\<lambda>p x y c. cv_project_id c = p \<and> {cv_sender_id c, cv_receiver_id c} = {x, y}"
  have tl: "length (filter (?Q p x y) cs) \<le> 1" for p x y
    using Cons.prems [of p x y] by (simp split: if_splits)
  have "conv_key c \<notin> conv_key ` set cs"
  proof
    assume "conv_key c \<in> conv_key ` set cs"
    then obtain c' where c': "c' \<in> set cs" and e: "conv_key c' = conv_key c" by auto
    then have "?Q (cv_project_id c) (cv_sender_id c) (cv_receiver_id c) c'"
      by (simp add: conv_key_def)
    with c' have "filter (?Q (cv_project_id c) (cv_sender_id c) (cv_receiver_id c)) cs \<noteq> []"
      by (auto simp: filter_empty_conv)
    then have "0 < length (filter (?Q (cv_project_id c) (cv_sender_id c) (cv_receiver_id c)) cs)"
      by simp
    with Cons.prems [of "cv_project_id c" "cv_sender_id c" "cv_receiver_id c"] show False by simp
  qed
  with Cons.IH [OF tl] show ?case by simp
qed

lemma unique_conv_ok:
  assumes "conversation_unique d"
  shows "conv_ok (conversations d)"
proof -
  from assms have "distinct (map conv_key (conversations d))"
    by (intro unique_rows_distinct) (simp add: conversation_unique_def pair_rows_def)
  with assms show ?thesis by (simp add: conv_ok_def conversation_unique_def list_all_iff)
qed

lemma insert_conversation_ok:
  assumes "conv_ok (conversations d)"
  shows "conv_ok (conversations (fst (insert_conversation f p s r d)))"
proof -
  have "list_ex (\<lambda>c. cv_project_id c = p \<and> cv_sender_id c = s \<and> cv_receiver_id c = r) (conversations d)
          \<longleftrightarrow> (p, s, r) \<in> conv_key ` set (conversations d)"
    by (auto simp: list_ex_iff conv_key_def image_iff)
  with assms show ?thesis
    by (simp add: insert_conversation_def Let_def conv_ok_def conv_key_def)
qed

lemma insert_member_conversations:
  "conversations (fst (insert_member row d)) = conversations d"
  by (simp add: insert_member_def)

lemma insert_agents_conversations:
  "conversations (fst (insert_agents userId as d)) = conversations d"
proof (induction as arbitrary: d)
  case Nil
  then show ?case by simp
next
  case (Cons a as)
  let ?d1 = "d\<lparr>agents := agents d @
                 [\<lparr>ag_id = seq_agents d, ag_user_id = Some userId, ag_name = ai_name a,
                   ag_role = ai_role a, ag_description = ai_description a, ag_model = ai_model a\<rparr>],
               seq_agents := seq_agents d + 1\<rparr>"
  obtain d2 ids es where r: "insert_agents userId as ?d1 = (d2, ids, es)" by (metis surj_pair)
  with Cons.IH [of ?d1] show ?case by (simp add: Let_def)
qed

lemma insert_pairs_ok:
  "conv_ok (conversations d) \<Longrightarrow>
   conv_ok (conversations (fst (fst (insert_pairs p agentId others created d))))"
proof (induction others arbitrary: created d)
  case Nil
  then show ?case by simp
next
  case (Cons otherId rest)
  let ?s = "min agentId otherId" and ?r = "max agentId otherId"
  obtain d1 res where i: "insert_conversation True p ?s ?r d = (d1, res)" by fastforce
  from insert_conversation_ok [OF Cons.prems, of True p ?s ?r] i
  have ok1: "conv_ok (conversations d1)" by simp
  show ?case
    using Cons.IH [OF Cons.prems] Cons.IH [OF ok1] ok1 i
    by (cases res) (simp_all add: Let_def)
qed

lemma insert_members_ok:
  "conv_ok (conversations d) \<Longrightarrow>
   conv_ok (conversations (fst (insert_members p ids members created d)))"
proof (induction members arbitrary: created d)
  case Nil
  then show ?case by simp
next
  case (Cons member rest)
  let ?can = "filter (\<lambda>i. i \<noteq> me_agentId member)
                (List.map_filter (index_lookup ids) (me_canMessageIndexes member))"
  let ?row = "\<lparr>pam_project_id = p, pam_agent_id = me_agentId member,
               pam_role = me_role member, pam_prompt = me_prompt member,
               pam_can_message_ids = ?can, pam_thread_id = me_threadId member\<rparr>"
  obtain d1 r1 where m: "insert_member ?row d = (d1, r1)" by fastforce
  with insert_member_conversations [of ?row d] Cons.prems
  have ok1: "conv_ok (conversations d1)" by simp
  obtain d2 created' r2 where q: "insert_pairs p (me_agentId member) ?can created d1 = ((d2, created'), r2)"
    by (metis surj_pair)
  with insert_pairs_ok [OF ok1, of p "me_agentId member" ?can created]
  have ok2: "conv_ok (conversations d2)" by simp
  show ?case
    using ok1 ok2 m q Cons.IH [OF ok2]
    by (cases r1; cases r2) (simp_all add: Let_def)
qed

lemma rollback_conversations: "conversations (rollback d d') = conversations d"
  by (simp add: rollback_def)

lemma create_project_ok:
  assumes "conv_ok (conversations d)"
  shows "conv_ok (conversations
           (fst (createProjectWithMembers now userId title description systemPrompt agentList tokenId d)))"
proof -
  let ?body = "\<lambda>d.
       if list_ex (\<lambda>p. pr_user_id p = userId \<and> pr_title p = title) (projects d)
       then (d, Inl (ThrownError ''A project with this title already exists.''))
       else
         let project = \<lparr>pr_id = seq_projects d, pr_user_id = userId, pr_title = title,
                         pr_description = description, pr_system_prompt = systemPrompt,
                         pr_paused = True, pr_message_limit = 0, pr_last_activity_at = now\<rparr>;
             d1 = d\<lparr>projects := projects d @ [project], seq_projects := seq_projects d + 1\<rparr>;
             bound = (case tokenId of
                        None \<Rightarrow> (d1, Inr ())
                      | Some t \<Rightarrow>
                          if t = 0 then (d1, Inr ())
                          else if \<not> list_ex (\<lambda>k. tok_id k = t) (tokens d1)
                          then (d1, Inl (DbError ''project_tokens_token_id_fkey''))
                          else (d1\<lparr>project_tokens := project_tokens d1 @
                                      [\<lparr>pt_project_id = pr_id project, pt_token_id = Some t\<rparr>]\<rparr>,
                                Inr ()))
         in case bound of
              (d2, Inl err) \<Rightarrow> (d2, Inl err)
            | (d2, Inr _) \<Rightarrow>
                (case insert_agents userId agentList d2 of
                   (d3, indexToIdMap, entries) \<Rightarrow>
                     let memberList = entries @
                           [\<lparr>me_agentId = 0, me_role = ''system'',
                             me_prompt = ''System agent: logs, system prompts, and control'',
                             me_canMessageIndexes = map int [0..<length indexToIdMap],
                             me_threadId = Some ''system''\<rparr>]
                     in case insert_members (pr_id project) indexToIdMap memberList [] d3 of
                          (d4, Inl err) \<Rightarrow> (d4, Inl err)
                        | (d4, Inr _) \<Rightarrow> (d4, Inr project))"
  have unf: "createProjectWithMembers now userId title description systemPrompt agentList tokenId d
               = tx_db ?body d"
    by (simp add: createProjectWithMembers_def)
  obtain d' res where b: "?body d = (d', res)" by fastforce
  show ?thesis
  proof (cases res)
    case (Inl e)
    with b assms show ?thesis by (simp add: unf tx_db_def rollback_conversations)
  next
    case (Inr v)
    have "conv_ok (conversations d')"
    proof (cases "list_ex (\<lambda>p. pr_user_id p = userId \<and> pr_title p = title) (projects d)")
      case True
      with b assms show ?thesis by simp
    next
      case False
      let ?project = "\<lparr>pr_id = seq_projects d, pr_user_id = userId, pr_title = title,
                         pr_description = description, pr_system_prompt = systemPrompt,
                         pr_paused = True, pr_message_limit = 0, pr_last_activity_at = now\<rparr>"
      let ?d1 = "d\<lparr>projects := projects d @ [?project], seq_projects := seq_projects d + 1\<rparr>"
      let ?bound = "(case tokenId of
                        None \<Rightarrow> (?d1, Inr ())
                      | Some t \<Rightarrow>
                          if t = 0 then (?d1, Inr ())
                          else if \<not> list_ex (\<lambda>k. tok_id k = t) (tokens ?d1)
                          then (?d1, Inl (DbError ''project_tokens_token_id_fkey''))
                          else (?d1\<lparr>project_tokens := project_tokens ?d1 @
                                      [\<lparr>pt_project_id = pr_id ?project, pt_token_id = Some t\<rparr>]\<rparr>,
                                Inr ()))"
      obtain d2 r2 where bd: "?bound = (d2, r2)" by fastforce
      then have c2: "conversations d2 = conversations d"
        by (auto split: option.splits if_splits)
      obtain d3 ids entries where ia: "insert_agents userId agentList d2 = (d3, ids, entries)"
        by (metis surj_pair)
      with insert_agents_conversations [of userId agentList d2] c2 assms
      have ok3: "conv_ok (conversations d3)" by simp
      let ?members = "entries @
                   [\<lparr>me_agentId = 0, me_role = ''system'',
                     me_prompt = ''System agent: logs, system prompts, and control'',
                     me_canMessageIndexes = map int [0..<length ids],
                     me_threadId = Some ''system''\<rparr>]"
      obtain d4 r4 where im: "insert_members (seq_projects d) ids ?members [] d3 = (d4, r4)"
        by fastforce
      with insert_members_ok [OF ok3, of "seq_projects d" ids ?members "[]"]
      have ok4: "conv_ok (conversations d4)" by simp
      from b False bd ia im have "d' = (case r2 of Inl e \<Rightarrow> d2 | Inr u \<Rightarrow> d4)"
        by (cases r2; cases r4) (simp_all add: Let_def)
      with ok4 c2 assms show ?thesis by (cases r2) simp_all
    qed
    with b Inr show ?thesis by (simp add: unf tx_db_def commit_def)
  qed
qed

lemma create_conversation_ok:
  assumes "conv_ok (conversations d)"
  shows "conv_ok (conversations (fst (createConversation userId projectId receiverId d)))"
proof -
  obtain d1 res where i: "insert_conversation False (sql_int projectId) userId receiverId d = (d1, res)"
    by fastforce
  with insert_conversation_ok [OF assms, of False "sql_int projectId" userId receiverId]
  have "conv_ok (conversations d1)" by simp
  with i assms show ?thesis
    by (simp add: createConversation_def commit_def split: sum.splits option.splits)
qed

lemma project_pairs_snoc:
  "conversations d1 = conversations d @ [row] \<Longrightarrow>
   project_pairs d1 p = (if cv_project_id row = p
                         then insert (cv_sender_id row, cv_receiver_id row) (project_pairs d p)
                         else project_pairs d p)"
  by (auto simp: project_pairs_def)

lemma insert_conversation_pairs:
  assumes "insert_conversation True p s r d = (d1, Inr x)"
  shows "project_pairs d1 p = insert (s, r) (project_pairs d p)"
    and "project_agent_members d1 = project_agent_members d"
proof -
  let ?dup = "list_ex (\<lambda>c. cv_project_id c = p \<and> cv_sender_id c = s \<and> cv_receiver_id c = r) (conversations d)"
  let ?row = "\<lparr>cv_id = seq_conversations d, cv_project_id = p, cv_sender_id = s, cv_receiver_id = r\<rparr>"
  have e: "?dup \<longleftrightarrow> (s, r) \<in> project_pairs d p"
    by (auto simp: list_ex_iff project_pairs_def image_iff)
  from assms have c: "conversations d1 = (if ?dup then conversations d else conversations d @ [?row])"
    by (auto simp: insert_conversation_def Let_def split: if_splits)
  show "project_pairs d1 p = insert (s, r) (project_pairs d p)"
  proof (cases ?dup)
    case True
    with c e show ?thesis by (auto simp: project_pairs_def)
  next
    case False
    with c have "conversations d1 = conversations d @ [?row]" by simp
    from project_pairs_snoc [OF this, of p] show ?thesis by simp
  qed
  from assms show "project_agent_members d1 = project_agent_members d"
    by (auto simp: insert_conversation_def Let_def split: if_splits)
qed

lemma insert_pairs_pairs:
  assumes "insert_pairs p a others created d = ((d2, created2), Inr u)"
    and "set created \<subseteq> project_pairs d p"
  shows "project_pairs d2 p = project_pairs d p \<union> (\<lambda>other. (min a other, max a other)) ` set others
       \<and> set created2 \<subseteq> project_pairs d2 p
       \<and> project_agent_members d2 = project_agent_members d"
  using assms
proof (induction others arbitrary: created d)
  case Nil
  then show ?case by simp
next
  case (Cons other rest)
  let ?s = "min a other" and ?r = "max a other"
  show ?case
  proof (cases "(?s, ?r) \<in> set created")
    case True
    with Cons.prems have "insert_pairs p a rest created d = ((d2, created2), Inr u)"
      by (simp add: Let_def)
    from Cons.IH [OF this Cons.prems(2)] True Cons.prems(2) show ?thesis by auto
  next
    case False
    obtain d1 res where i: "insert_conversation True p ?s ?r d = (d1, res)" by fastforce
    with False Cons.prems(1) obtain x where res: "res = Inr x"
      by (cases res) (simp_all add: Let_def)
    note ip = insert_conversation_pairs [OF i [unfolded res]]
    from False Cons.prems(1) i res
    have rec: "insert_pairs p a rest (created @ [(?s, ?r)]) d1 = ((d2, created2), Inr u)"
      by (simp add: Let_def)
    have sub: "set (created @ [(?s, ?r)]) \<subseteq> project_pairs d1 p"
      using Cons.prems(2) ip(1) by auto
    from Cons.IH [OF rec sub] ip show ?thesis by auto
  qed
qed

lemma insert_member_rows:
  assumes "insert_member row d = (d1, Inr u)"
  shows "project_agent_members d1 = project_agent_members d @ [row]"
    and "conversations d1 = conversations d"
  using assms by (auto simp: insert_member_def split: if_splits)

lemma member_pairs_append:
  assumes "project_agent_members d1 = project_agent_members d @ [row]" and "pam_project_id row = p"
  shows "member_pairs d1 p
           = member_pairs d p
             \<union> (\<lambda>other. (min (pam_agent_id row) other, max (pam_agent_id row) other)) ` set (pam_can_message_ids row)"
  using assms by (auto simp: member_pairs_def)

lemma project_pairs_cong:
  "conversations d1 = conversations d \<Longrightarrow> project_pairs d1 p = project_pairs d p"
  by (simp add: project_pairs_def)

lemma member_pairs_cong:
  "project_agent_members d1 = project_agent_members d \<Longrightarrow> member_pairs d1 p = member_pairs d p"
  by (simp add: member_pairs_def)

lemma insert_members_pairs:
  assumes "insert_members p ids members created d = (d', Inr u)"
    and "set created \<subseteq> project_pairs d p"
    and "project_pairs d p = member_pairs d p"
  shows "project_pairs d' p = member_pairs d' p"
  using assms
proof (induction members arbitrary: created d)
  case Nil
  then show ?case by simp
next
  case (Cons member rest)
  let ?can = "filter (\<lambda>i. i \<noteq> me_agentId member)
                (List.map_filter (index_lookup ids) (me_canMessageIndexes member))"
  let ?row = "\<lparr>pam_project_id = p, pam_agent_id = me_agentId member,
               pam_role = me_role member, pam_prompt = me_prompt member,
               pam_can_message_ids = ?can, pam_thread_id = me_threadId member\<rparr>"
  obtain d1 r1 where m: "insert_member ?row d = (d1, r1)" by fastforce
  with Cons.prems(1) obtain u1 where r1: "r1 = Inr u1"
    by (cases r1) (simp_all add: Let_def)
  note im = insert_member_rows [OF m [unfolded r1]]
  obtain d2 created2 r2 where q: "insert_pairs p (me_agentId member) ?can created d1 = ((d2, created2), r2)"
    by (metis surj_pair)
  with Cons.prems(1) m r1 obtain u2 where r2: "r2 = Inr u2"
    by (cases r2) (simp_all add: Let_def)
  have sub1: "set created \<subseteq> project_pairs d1 p"
    using Cons.prems(2) project_pairs_cong [OF im(2)] by simp
  note ip = insert_pairs_pairs [OF q [unfolded r2] sub1]
  have mp1: "member_pairs d1 p = member_pairs d p
               \<union> (\<lambda>other. (min (me_agentId member) other, max (me_agentId member) other)) ` set ?can"
    using member_pairs_append [OF im(1), of p] by simp
  have mp2: "member_pairs d2 p = member_pairs d1 p"
    using ip by (intro member_pairs_cong) simp
  have inv2: "project_pairs d2 p = member_pairs d2 p"
    using ip mp1 mp2 Cons.prems(3) project_pairs_cong [OF im(2), of p] by simp
  from Cons.prems(1) m r1 q r2
  have rec: "insert_members p ids rest created2 d2 = (d', Inr u)"
    by (simp add: Let_def)
  from ip have sub2: "set created2 \<subseteq> project_pairs d2 p" by blast
  from Cons.IH [OF rec sub2 inv2] show ?case .
qed

lemma insert_agents_members:
  "project_agent_members (fst (insert_agents userId as d)) = project_agent_members d"
proof (induction as arbitrary: d)
  case Nil
  then show ?case by simp
next
  case (Cons a as)
  let ?d1 = "d\<lparr>agents := agents d @
                 [\<lparr>ag_id = seq_agents d, ag_user_id = Some userId, ag_name = ai_name a,
                   ag_role = ai_role a, ag_description = ai_description a, ag_model = ai_model a\<rparr>],
               seq_agents := seq_agents d + 1\<rparr>"
  obtain d2 ids es where r: "insert_agents userId as ?d1 = (d2, ids, es)" by (metis surj_pair)
  with Cons.IH [of ?d1] show ?case by (simp add: Let_def)
qed

lemma unused_pairs_empty:
  assumes "next_project_unused d"
  shows "project_pairs d (seq_projects d) = {}" and "member_pairs d (seq_projects d) = {}"
  using assms by (auto simp: next_project_unused_def project_pairs_def member_pairs_def list_all_iff)

lemma create_project_pairs:
  assumes "next_project_unused d"
    and "createProjectWithMembers now userId title description systemPrompt agentList tokenId d
           = (d', Inr project)"
  shows "project_pairs d' (pr_id project) = member_pairs d' (pr_id project)"
proof -
  let ?project = "\<lparr>pr_id = seq_projects d, pr_user_id = userId, pr_title = title,
                     pr_description = description, pr_system_prompt = systemPrompt,
                     pr_paused = True, pr_message_limit = 0, pr_last_activity_at = now\<rparr>"
  let ?d1 = "d\<lparr>projects := projects d @ [?project], seq_projects := seq_projects d + 1\<rparr>"
  let ?bound = "(case tokenId of
                    None \<Rightarrow> (?d1, Inr ())
                  | Some t \<Rightarrow>
                      if t = 0 then (?d1, Inr ())
                      else if \<not> list_ex (\<lambda>k. tok_id k = t) (tokens ?d1)
                      then (?d1, Inl (DbError ''project_tokens_token_id_fkey''))
                      else (?d1\<lparr>project_tokens := project_tokens ?d1 @
                                  [\<lparr>pt_project_id = pr_id ?project, pt_token_id = Some t\<rparr>]\<rparr>,
                            Inr ()))"
  have nt: "\<not> list_ex (\<lambda>p. pr_user_id p = userId \<and> pr_title p = title) (projects d)"
    using assms(2) by (auto simp: createProjectWithMembers_def tx_db_def split: if_splits)
  obtain d2 r2 where bd: "?bound = (d2, r2)" by fastforce
  then have c2: "conversations d2 = conversations d" "project_agent_members d2 = project_agent_members d"
    by (auto split: option.splits if_splits)
  obtain d3 ids entries where ia: "insert_agents userId agentList d2 = (d3, ids, entries)"
    by (metis surj_pair)
  with insert_agents_conversations [of userId agentList d2] insert_agents_members [of userId agentList d2] c2
  have c3: "conversations d3 = conversations d" "project_agent_members d3 = project_agent_members d"
    by simp_all
  let ?members = "entries @
               [\<lparr>me_agentId = 0, me_role = ''system'',
                 me_prompt = ''System agent: logs, system prompts, and control'',
                 me_canMessageIndexes = map int [0..<length ids],
                 me_threadId = Some ''system''\<rparr>]"
  obtain d4 r4 where im: "insert_members (seq_projects d) ids ?members [] d3 = (d4, r4)"
    by fastforce
  from assms(2) nt bd ia im
  have res: "r2 = Inr () \<and> (\<exists>u. r4 = Inr u) \<and> d' = commit d4 \<and> project = ?project"
    by (cases r2; cases r4) (auto simp: createProjectWithMembers_def tx_db_def Let_def)
  then obtain u where r4: "r4 = Inr u" by blast
  have e: "project_pairs d3 (seq_projects d) = member_pairs d3 (seq_projects d)"
    using unused_pairs_empty [OF assms(1)] project_pairs_cong [OF c3(1)] member_pairs_cong [OF c3(2)]
    by simp
  have "project_pairs d4 (seq_projects d) = member_pairs d4 (seq_projects d)"
    using insert_members_pairs [OF im [unfolded r4] _ e] by simp
  with res show ?thesis
    by (simp add: commit_def project_pairs_def member_pairs_def)
qed

text \<open>A store without conversations satisfies uniqueness.\<close>

lemma no_conversations_unique: "conversations d = [] \<Longrightarrow> conversation_unique d"
  by (simp add: conversation_unique_def pair_rows_def)

text \<open>
  C4. If the conversations satisfy uniqueness (for every project and unordered pair at
  most one row, and sender at most receiver in every row), they still do after a project
  creation and after a user-initiated conversation creation, whether the operation
  succeeds or fails. After a successful project creation the new project has a
  conversation for exactly the ordered pairs that its stored memberships allow, provided
  the project id drawn was unused.
\<close>

theorem conversation_uniqueness_invariant:
  assumes "conversation_unique d"
  shows "conversation_unique
           (fst (createProjectWithMembers now userId title description systemPrompt agentList tokenId d))
       \<and> conversation_unique (fst (createConversation user projectId receiverId d))
       \<and> (next_project_unused d
            \<and> snd (createProjectWithMembers now userId title description systemPrompt agentList tokenId d)
                = Inr project
          \<longrightarrow> project_pairs
                (fst (createProjectWithMembers now userId title description systemPrompt agentList tokenId d))
                (pr_id project)
              = member_pairs
                  (fst (createProjectWithMembers now userId title description systemPrompt agentList tokenId d))
                  (pr_id project))"
proof -
  from assms have ok: "conv_ok (conversations d)" by (rule unique_conv_ok)
  have 1: "conversation_unique
           (fst (createProjectWithMembers now userId title description systemPrompt agentList tokenId d))"
    using ok by (intro conv_ok_unique create_project_ok)
  have 2: "conversation_unique (fst (createConversation user projectId receiverId d))"
    using ok by (intro conv_ok_unique create_conversation_ok)
  have 3: "project_pairs
                (fst (createProjectWithMembers now userId title description systemPrompt agentList tokenId d))
                (pr_id project)
              = member_pairs
                  (fst (createProjectWithMembers now userId title description systemPrompt agentList tokenId d))
                  (pr_id project)"
    if "next_project_unused d"
      and "snd (createProjectWithMembers now userId title description systemPrompt agentList tokenId d)
             = Inr project"
    using create_project_pairs [OF that(1), of now userId title description systemPrompt agentList tokenId
        "fst (createProjectWithMembers now userId title description systemPrompt agentList tokenId d)" project]
      that(2)
    by (simp add: prod_eq_iff)
  from 1 2 3 show ?thesis by blast
qed

lemma demo_create_project:
  "map conv_key (conversations (fst (createProjectWithMembers 9 10 ''Q'' [] [] demo_agents None demo_db)))
     = [(1, 0, 3), (100, 0, 1), (100, 1, 2), (100, 0, 2), (101, 4, 5), (101, 0, 4), (101, 0, 5)]"
  by (simp add: createProjectWithMembers_def tx_db_def commit_def Let_def insert_member_def
      insert_conversation_def index_lookup_def List.map_filter_def conv_key_def demo_db_def
      demo_agents_def upt_rec)

lemma demo_create_conversation:
  "map conv_key (conversations (fst (createConversation 10 (JStr 100) 12 demo_db)))
     = [(1, 0, 3), (100, 0, 1), (100, 1, 2), (100, 0, 2), (100, 10, 12)]"
  by (simp add: createConversation_def insert_conversation_def in_int4_def commit_def Let_def
      conv_key_def demo_db_def)

theorem conversation_uniqueness_invariant_witness:
  "conv_ok (conversations (fst (createProjectWithMembers 9 10 ''Q'' [] [] demo_agents None demo_db)))
   \<and> map conv_key (conversations (fst (createProjectWithMembers 9 10 ''Q'' [] [] demo_agents None demo_db)))
       = [(1, 0, 3), (100, 0, 1), (100, 1, 2), (100, 0, 2), (101, 4, 5), (101, 0, 4), (101, 0, 5)]
   \<and> conv_ok (conversations (fst (createConversation 10 (JStr 100) 12 demo_db)))
   \<and> map conv_key (conversations (fst (createConversation 10 (JStr 100) 12 demo_db)))
       = [(1, 0, 3), (100, 0, 1), (100, 1, 2), (100, 0, 2), (100, 10, 12)]"
proof -
  have "conv_ok (conversations demo_db)"
    by (simp add: conv_ok_def conv_key_def demo_db_def)
  then have cu: "conversation_unique demo_db" by (rule conv_ok_unique)
  from conversation_uniqueness_invariant [OF cu, of 9 10 "''Q''" "[]" "[]" demo_agents None 10 "JStr 100" 12]
  have "conversation_unique (fst (createProjectWithMembers 9 10 ''Q'' [] [] demo_agents None demo_db))"
    and "conversation_unique (fst (createConversation 10 (JStr 100) 12 demo_db))"
    by blast+
  then show ?thesis
    using demo_create_project demo_create_conversation by (simp add: unique_conv_ok)
qed

section \<open>Budget exhaustion and the decrement operation\<close>

lemma find_map_upd:
  assumes "\<And>p. pr_id (g p) = pr_id p"
  shows "find (\<lambda>p. pr_id p = i) (map (\<lambda>p. if pr_id p = i then g p else p) ps)
           = map_option g (find (\<lambda>p. pr_id p = i) ps)"
  by (induction ps) (simp_all add: assms)

lemma list_ex_map_upd:
  assumes "\<And>p. pr_id (g p) = pr_id p"
  shows "list_ex (\<lambda>p. pr_id p = i) (map (\<lambda>p. if pr_id p = i then g p else p) ps)
           = list_ex (\<lambda>p. pr_id p = i) ps"
  by (induction ps) (simp_all add: assms)

lemma find_Some_list_ex: "find P xs = Some x \<Longrightarrow> list_ex P xs"
  by (induction xs) (auto split: if_splits)

lemma find_unique:
  "distinct (map f xs) \<Longrightarrow> find (\<lambda>x. f x = k) xs = Some p \<Longrightarrow> q \<in> set xs \<Longrightarrow> f q = k \<Longrightarrow> q = p"
  by (induction xs) (force split: if_splits)+

text \<open>What \<open>pauseProjectInternal\<close> does to a project that exists.\<close>

lemma pause_existing:
  assumes "list_ex (\<lambda>p. pr_id p = sql_int projectId) (projects (a_db a))"
  shows "snd (pauseProjectInternal projectId code message a) = Inr ()"
    and "projects (a_db (fst (pauseProjectInternal projectId code message a)))
           = map (\<lambda>p. if pr_id p = sql_int projectId then p\<lparr>pr_paused := True\<rparr> else p) (projects (a_db a))"
    and "logs (a_db (fst (pauseProjectInternal projectId code message a)))
           = logs (a_db a) @ [\<lparr>log_id = seq_logs (a_db a), log_project_id = sql_int projectId,
                                 log_level = ''warn'', log_message = message, log_code = Some code\<rparr>]"
    and "commits (a_db (fst (pauseProjectInternal projectId code message a))) = Suc (commits (a_db a))"
    and "a_hub (fst (pauseProjectInternal projectId code message a))
           = broadcastToProject projectId (Project_updated projectId None None) (a_hub a)"
    and "a_nudges (fst (pauseProjectInternal projectId code message a)) = a_nudges a"
  using assms
  by (simp_all add: pauseProjectInternal_def tx_def Let_def commit_def list_ex_map_upd)

lemma decrement_unfold:
  assumes pk: "distinct (map pr_id (projects (a_db a)))"
    and f: "project_by_id (a_db a) (sql_int projectId) = Some p"
    and r: "in_int4 (pr_message_limit p - 1)"
  shows "decrementMessageLimit projectId a =
           (if pr_message_limit p - 1 \<le> 0
            then (fst (pauseProjectInternal projectId ''MESSAGE_LIMIT''
                         ''Project paused automatically after reaching message limit.''
                         (decremented projectId a (pr_message_limit p - 1))),
                  Inr \<lparr>success = True, newLimit = Some (pr_message_limit p - 1)\<rparr>)
            else (decremented projectId a (pr_message_limit p - 1),
                  Inr \<lparr>success = True, newLimit = Some (pr_message_limit p - 1)\<rparr>))"
proof -
  let ?hit = "\<lambda>q. pr_id q = sql_int projectId"
  let ?dec = "\<lambda>q. if ?hit q then q\<lparr>pr_message_limit := pr_message_limit q - 1\<rparr> else q"
  from f have fp: "find ?hit (projects (a_db a)) = Some p" by (simp add: project_by_id_def)
  have no: "\<not> list_ex (\<lambda>q. ?hit q \<and> \<not> in_int4 (pr_message_limit q - 1)) (projects (a_db a))"
    using find_unique [OF pk fp] r by (auto simp: list_ex_iff)
  have fd: "find ?hit (map ?dec (projects (a_db a))) = Some (p\<lparr>pr_message_limit := pr_message_limit p - 1\<rparr>)"
    using find_map_upd [of "\<lambda>q. q\<lparr>pr_message_limit := pr_message_limit q - 1\<rparr>" "sql_int projectId" "projects (a_db a)"] fp
    by simp
  have ex: "list_ex ?hit (projects (a_db (decremented projectId a (pr_message_limit p - 1))))"
    using find_Some_list_ex [OF fd] by (simp add: decremented_def commit_def)
  have ok: "snd (pauseProjectInternal projectId ''MESSAGE_LIMIT''
                   ''Project paused automatically after reaching message limit.''
                   (decremented projectId a (pr_message_limit p - 1))) = Inr ()"
    using ex by (rule pause_existing)
  show ?thesis
  proof (cases "pr_message_limit p - 1 \<le> 0")
    case True
    obtain a2 r2 where pz: "pauseProjectInternal projectId ''MESSAGE_LIMIT''
                   ''Project paused automatically after reaching message limit.''
                   (decremented projectId a (pr_message_limit p - 1)) = (a2, r2)"
      by fastforce
    with ok have r2: "r2 = Inr ()" by simp
    show ?thesis
      using no fd True pz r2
      by (simp add: decrementMessageLimit_def Let_def commit_def decremented_def)
  next
    case False
    then show ?thesis
      using no fd
      by (simp add: decrementMessageLimit_def Let_def commit_def decremented_def)
  qed
qed


lemma filter_other_map_upd:
  assumes "\<And>p. pr_id (g p) = pr_id p"
  shows "filter (\<lambda>q. pr_id q \<noteq> i) (map (\<lambda>p. if pr_id p = i then g p else p) ps)
           = filter (\<lambda>q. pr_id q \<noteq> i) ps"
  by (induction ps) (simp_all add: assms)

lemma decrement_result:
  assumes pk: "distinct (map pr_id (projects (a_db a)))"
    and f: "project_by_id (a_db a) (sql_int projectId) = Some p"
    and r: "in_int4 (pr_message_limit p - 1)"
  shows "snd (decrementMessageLimit projectId a)
           = Inr \<lparr>success = True, newLimit = Some (pr_message_limit p - 1)\<rparr>"
    and "project_by_id (a_db (fst (decrementMessageLimit projectId a))) (sql_int projectId)
           = Some (p\<lparr>pr_message_limit := pr_message_limit p - 1,
                     pr_paused := (pr_message_limit p - 1 \<le> 0 \<or> pr_paused p)\<rparr>)"
    and "filter (\<lambda>q. pr_id q \<noteq> sql_int projectId) (projects (a_db (fst (decrementMessageLimit projectId a))))
           = filter (\<lambda>q. pr_id q \<noteq> sql_int projectId) (projects (a_db a))"
    and "logs (a_db (fst (decrementMessageLimit projectId a)))
           = logs (a_db a) @
             (if pr_message_limit p - 1 \<le> 0
              then [\<lparr>log_id = seq_logs (a_db a), log_project_id = sql_int projectId,
                     log_level = ''warn'',
                     log_message = ''Project paused automatically after reaching message limit.'',
                     log_code = Some ''MESSAGE_LIMIT''\<rparr>]
              else [])"
    and "commits (a_db (fst (decrementMessageLimit projectId a)))
           = commits (a_db a) + (if pr_message_limit p - 1 \<le> 0 then 2 else 1)"
proof -
  let ?hit = "\<lambda>q. pr_id q = sql_int projectId"
  let ?new = "pr_message_limit p - 1"
  let ?a1 = "decremented projectId a ?new"
  note u = decrement_unfold [OF pk f r]
  from f have fp: "find ?hit (projects (a_db a)) = Some p" by (simp add: project_by_id_def)
  have fd: "find ?hit (projects (a_db ?a1)) = Some (p\<lparr>pr_message_limit := ?new\<rparr>)"
    using find_map_upd [of "\<lambda>q. q\<lparr>pr_message_limit := pr_message_limit q - 1\<rparr>" "sql_int projectId" "projects (a_db a)"] fp
    by (simp add: decremented_def commit_def)
  then have ex: "list_ex ?hit (projects (a_db ?a1))" by (rule find_Some_list_ex)
  note pz = pause_existing [OF ex]
  show "snd (decrementMessageLimit projectId a) = Inr \<lparr>success = True, newLimit = Some ?new\<rparr>"
    by (simp add: u)
  show "project_by_id (a_db (fst (decrementMessageLimit projectId a))) (sql_int projectId)
           = Some (p\<lparr>pr_message_limit := ?new, pr_paused := (?new \<le> 0 \<or> pr_paused p)\<rparr>)"
  proof (cases "?new \<le> 0")
    case True
    have "find ?hit (map (\<lambda>q. if ?hit q then q\<lparr>pr_paused := True\<rparr> else q) (projects (a_db ?a1)))
            = Some (p\<lparr>pr_message_limit := ?new, pr_paused := True\<rparr>)"
      using find_map_upd [of "\<lambda>q. q\<lparr>pr_paused := True\<rparr>" "sql_int projectId" "projects (a_db ?a1)"] fd
      by simp
    with True show ?thesis by (simp add: u pz project_by_id_def)
  next
    case False
    with fd show ?thesis by (simp add: u project_by_id_def)
  qed
  show "filter (\<lambda>q. pr_id q \<noteq> sql_int projectId) (projects (a_db (fst (decrementMessageLimit projectId a))))
           = filter (\<lambda>q. pr_id q \<noteq> sql_int projectId) (projects (a_db a))"
    by (simp add: u pz filter_other_map_upd) (simp add: decremented_def commit_def filter_other_map_upd)
  show "logs (a_db (fst (decrementMessageLimit projectId a)))
           = logs (a_db a) @
             (if ?new \<le> 0
              then [\<lparr>log_id = seq_logs (a_db a), log_project_id = sql_int projectId,
                     log_level = ''warn'',
                     log_message = ''Project paused automatically after reaching message limit.'',
                     log_code = Some ''MESSAGE_LIMIT''\<rparr>]
              else [])"
    by (simp add: u pz) (simp add: decremented_def commit_def)
  show "commits (a_db (fst (decrementMessageLimit projectId a)))
           = commits (a_db a) + (if ?new \<le> 0 then 2 else 1)"
    by (simp add: u pz) (simp add: decremented_def commit_def)
qed






text \<open>
  C2, as amended. On an existing project, decrement-budget lowers message_limit by exactly
  1 in one UPDATE that commits by itself, and returns the new value. When the new value
  is at most 0 it then sets paused and appends a warn-level log whose machine code is
  \<^verbatim>\<open>MESSAGE_LIMIT\<close>, both in one further transaction. No other project row changes.
\<close>

theorem decrement_budget_contract:
  assumes "distinct (map pr_id (projects (a_db a)))"
    and "project_by_id (a_db a) (sql_int projectId) = Some p"
    and "in_int4 (pr_message_limit p - 1)"
  shows "snd (decrementMessageLimit projectId a)
           = Inr \<lparr>success = True, newLimit = Some (pr_message_limit p - 1)\<rparr>
       \<and> project_by_id (a_db (fst (decrementMessageLimit projectId a))) (sql_int projectId)
           = Some (p\<lparr>pr_message_limit := pr_message_limit p - 1,
                     pr_paused := (pr_message_limit p - 1 \<le> 0 \<or> pr_paused p)\<rparr>)
       \<and> filter (\<lambda>q. pr_id q \<noteq> sql_int projectId) (projects (a_db (fst (decrementMessageLimit projectId a))))
           = filter (\<lambda>q. pr_id q \<noteq> sql_int projectId) (projects (a_db a))
       \<and> logs (a_db (fst (decrementMessageLimit projectId a)))
           = logs (a_db a) @
             (if pr_message_limit p - 1 \<le> 0
              then [\<lparr>log_id = seq_logs (a_db a), log_project_id = sql_int projectId,
                     log_level = ''warn'',
                     log_message = ''Project paused automatically after reaching message limit.'',
                     log_code = Some ''MESSAGE_LIMIT''\<rparr>]
              else [])
       \<and> commits (a_db (fst (decrementMessageLimit projectId a)))
           = commits (a_db a) + (if pr_message_limit p - 1 \<le> 0 then 2 else 1)"
  using decrement_result [OF assms] by simp

theorem decrement_budget_contract_witness:
  "snd (decrementMessageLimit (JStr 100) demo_app) = Inr \<lparr>success = True, newLimit = Some 0\<rparr>
   \<and> map log_level (logs (a_db (fst (decrementMessageLimit (JStr 100) demo_app)))) = [''warn'']
   \<and> commits (a_db (fst (decrementMessageLimit (JStr 100) demo_app))) = 2"
  using decrement_budget_contract [of demo_app "JStr 100" "the (project_by_id demo_db 100)"]
  by (simp add: demo_app_def demo_db_def project_by_id_def in_int4_def)

text \<open>
  Decrementing the last unit of budget of project 100: the log's code is
  \<^verbatim>\<open>MESSAGE_LIMIT\<close>, and two transactions have committed.
\<close>

theorem decrement_logs_MESSAGE_LIMIT_in_second_transaction:
  "map log_code (logs (a_db (fst (decrementMessageLimit (JStr 100) demo_app)))) = [Some ''MESSAGE_LIMIT'']
   \<and> map log_code (logs (a_db (fst (decrementMessageLimit (JStr 100) demo_app)))) \<noteq> [Some ''message-limit'']
   \<and> commits (a_db (fst (decrementMessageLimit (JStr 100) demo_app))) = commits (a_db demo_app) + 2"
  by (simp add: decrementMessageLimit_def pauseProjectInternal_def tx_def commit_def Let_def
      demo_app_def demo_db_def in_int4_def)

section \<open>Sending a message\<close>

text \<open>
  A content that holds U+0000 is refused by the store: no row, no broadcast, no nudge.
\<close>

lemma send_with_nul_is_refused:
  assumes "getConversationParticipants (JStr conversationId) (a_db a) = Some c"
    and "cv_project_id c \<noteq> 0"
    and "has_nul (b_content body)"
  shows "snd (sendMessage now conversationId body a) = Inl nul_rejected"
    and "messages (a_db (fst (sendMessage now conversationId body a))) = messages (a_db a)"
    and "a_hub (fst (sendMessage now conversationId body a)) = a_hub a"
    and "a_nudges (fst (sendMessage now conversationId body a)) = a_nudges a"
  using assms
  by (simp_all add: sendMessage_def createMessage_def tx_def rollback_def Let_def)

text \<open>
  C3, as amended. A user send into an existing conversation whose body gives no type, or
  the type \<^verbatim>\<open>user\<close>, and whose content holds no U+0000, inserts a row with sender 0, with the conversation's receiver as
  receiver when the conversation's sender is the System agent and the conversation's
  sender otherwise, with status pending and type user; it sets the project's
  last_activity_at, publishes \<^verbatim>\<open>new_message\<close> for the project and nudges the worker.
\<close>

theorem user_send_inserts_pending_user_message:
  assumes "getConversationParticipants (JStr conversationId) (a_db a) = Some c"
    and "cv_project_id c \<noteq> 0"
    and "list_ex (\<lambda>p. pr_id p = cv_project_id c) (projects (a_db a))"
    and "b_type body = None \<or> b_type body = Some ''user''"
    and "\<not> has_nul (b_content body)"
  shows "let m = \<lparr>msg_id = seq_messages (a_db a), msg_conversation_id = conversationId,
                   msg_project_id = cv_project_id c, msg_sender_id = 0,
                   msg_receiver_id = (if cv_sender_id c = 0 then cv_receiver_id c else cv_sender_id c),
                   msg_type = ''user'', msg_status = ''pending'',
                   msg_content = b_content body, msg_created_at = now\<rparr>;
             a' = fst (sendMessage now conversationId body a)
         in snd (sendMessage now conversationId body a) = Inr m
          \<and> messages (a_db a') = messages (a_db a) @ [m]
          \<and> projects (a_db a')
              = map (\<lambda>p. if pr_id p = cv_project_id c then p\<lparr>pr_last_activity_at := now\<rparr> else p)
                  (projects (a_db a))
          \<and> a_hub a' = broadcastToProject (JNum (cv_project_id c)) (New_message m) (a_hub a)
          \<and> a_nudges a' = a_nudges a @ [JNum (cv_project_id c)]"
proof -
  from assms(1) have "find (\<lambda>x. cv_id x = conversationId) (conversations (a_db a)) = Some c"
    by (simp add: getConversationParticipants_def)
  then have ex: "list_ex (\<lambda>x. cv_id x = conversationId) (conversations (a_db a))"
    by (rule find_Some_list_ex)
  from assms(4) have ty: "(case b_type body of None \<Rightarrow> ''user'' | Some t \<Rightarrow> t) = ''user''"
    by (auto split: option.splits)
  show ?thesis
    using assms(1-3,5) ex ty
    by (simp add: sendMessage_def createMessage_def tx_def nudgeBrain_def commit_def Let_def
        has_nul_def)
qed

theorem user_send_inserts_pending_user_message_witness:
  "snd (sendMessage 42 7 \<lparr>b_content = ''kickoff'', b_type = None\<rparr> demo_app)
     = Inr \<lparr>msg_id = 1, msg_conversation_id = 7, msg_project_id = 100, msg_sender_id = 0,
            msg_receiver_id = 1, msg_type = ''user'', msg_status = ''pending'',
            msg_content = ''kickoff'', msg_created_at = 42\<rparr>
   \<and> a_nudges (fst (sendMessage 42 7 \<lparr>b_content = ''kickoff'', b_type = None\<rparr> demo_app)) = [JNum 100]
   \<and> map pr_last_activity_at
        (projects (a_db (fst (sendMessage 42 7 \<lparr>b_content = ''kickoff'', b_type = None\<rparr> demo_app))))
      = [0, 42]"
  using user_send_inserts_pending_user_message
    [of 7 demo_app "\<lparr>cv_id = 7, cv_project_id = 100, cv_sender_id = 0, cv_receiver_id = 1\<rparr>"
        "\<lparr>b_content = ''kickoff'', b_type = None\<rparr>" 42]
  by (simp add: getConversationParticipants_def demo_app_def demo_db_def Let_def has_nul_def)

text \<open>
  A send whose body carries the type \<^verbatim>\<open>system\<close>: the row is stored as sent with that
  type, and the worker is not nudged.
\<close>

theorem user_send_with_other_type_is_sent_without_nudge:
  "snd (sendMessage 42 7 \<lparr>b_content = ''kickoff'', b_type = Some ''system''\<rparr> demo_app)
     = Inr \<lparr>msg_id = 1, msg_conversation_id = 7, msg_project_id = 100, msg_sender_id = 0,
            msg_receiver_id = 1, msg_type = ''system'', msg_status = ''sent'',
            msg_content = ''kickoff'', msg_created_at = 42\<rparr>
   \<and> a_nudges (fst (sendMessage 42 7 \<lparr>b_content = ''kickoff'', b_type = Some ''system''\<rparr> demo_app)) = []"
  by (simp add: sendMessage_def createMessage_def tx_def nudgeBrain_def commit_def Let_def
      getConversationParticipants_def demo_app_def demo_db_def has_nul_def)

text \<open>
  C9. Boundary validation of a send only requires a non-empty string: a content of 2001
  characters, above \<open>MAX_MESSAGE_LENGTH\<close>, passes \<open>SendMessageSchema\<close> and the
  message is inserted.
\<close>

theorem overlong_message_is_accepted:
  "MAX_MESSAGE_LENGTH < length (replicate 2001 CHR ''a'')
   \<and> SendMessageSchema \<lparr>b_content = replicate 2001 CHR ''a'', b_type = None\<rparr> = None
   \<and> snd (route_sendMessage 42 7 \<lparr>b_content = replicate 2001 CHR ''a'', b_type = None\<rparr> demo_app)
       = Done \<lparr>msg_id = 1, msg_conversation_id = 7, msg_project_id = 100, msg_sender_id = 0,
               msg_receiver_id = 1, msg_type = ''user'', msg_status = ''pending'',
               msg_content = replicate 2001 CHR ''a'', msg_created_at = 42\<rparr>
   \<and> map msg_content
        (messages (a_db (fst (route_sendMessage 42 7 \<lparr>b_content = replicate 2001 CHR ''a'', b_type = None\<rparr> demo_app))))
       = [replicate 2001 CHR ''a'']"
  by (simp add: MAX_MESSAGE_LENGTH_def SendMessageSchema_def route_sendMessage_def tryCatch_def
      sendMessage_def createMessage_def tx_def nudgeBrain_def commit_def Let_def
      getConversationParticipants_def demo_app_def demo_db_def has_nul_def)

section \<open>The pending queue\<close>

text \<open>
  Every list that holds the selected rows in ascending key order is a possible answer of
  the query: the model leaves the order of equal keys as open as SQL does.
\<close>

lemma every_sorted_arrangement_is_possible:
  assumes "sorted (map msg_created_at r)"
  shows "getPendingMessages (\<lambda>rows. r) projectId d = r"
  using assms by (simp add: getPendingMessages_def sort_key_id_if_sorted)

text \<open>
  C5, as amended. Whatever order the selected rows reach the sort in, the pending queue
  holds exactly the messages of the project whose status is pending, each as often as the
  table holds it, sorted by created_at ascending. Nothing is said about the order of
  messages with equal created_at.
\<close>

theorem pending_queue_sorted_by_created_at:
  assumes "mset (arrange (filter (\<lambda>m. msg_project_id m = sql_int projectId \<and> msg_status m = ''pending'')
                            (messages d)))
             = mset (filter (\<lambda>m. msg_project_id m = sql_int projectId \<and> msg_status m = ''pending'')
                       (messages d))"
  shows "mset (getPendingMessages arrange projectId d)
           = mset (filter (\<lambda>m. msg_project_id m = sql_int projectId \<and> msg_status m = ''pending'')
                     (messages d))
       \<and> sorted (map msg_created_at (getPendingMessages arrange projectId d))"
  using assms by (simp add: getPendingMessages_def)

theorem pending_queue_sorted_by_created_at_witness:
  "map msg_id (getPendingMessages rev (JStr 100) (demo_db\<lparr>messages := busy_messages\<rparr>)) = [3, 1, 2]
   \<and> map msg_created_at (getPendingMessages rev (JStr 100) (demo_db\<lparr>messages := busy_messages\<rparr>))
       = [4, 5, 5]"
proof -
  have "sorted (map msg_created_at (getPendingMessages rev (JStr 100) (demo_db\<lparr>messages := busy_messages\<rparr>)))"
    using pending_queue_sorted_by_created_at [of rev "JStr 100" "demo_db\<lparr>messages := busy_messages\<rparr>"]
    by simp
  then show ?thesis
    by (simp add: getPendingMessages_def busy_messages_def tied_messages_def)
qed

text \<open>
  Two pending messages of one timestamp that reach the sort in the order 2, 1: the queue
  is 2, 1, not ascending in id.
\<close>

theorem pending_queue_ties_not_by_id:
  "map msg_id (getPendingMessages id (JStr 100) (demo_db\<lparr>messages := tied_messages\<rparr>)) = [2, 1]
   \<and> map msg_created_at (getPendingMessages id (JStr 100) (demo_db\<lparr>messages := tied_messages\<rparr>)) = [5, 5]
   \<and> \<not> ties_by_id (getPendingMessages id (JStr 100) (demo_db\<lparr>messages := tied_messages\<rparr>))"
  by (simp add: getPendingMessages_def tied_messages_def ties_by_id_def)

section \<open>Deleting a token\<close>

lemma map_unbind_unused:
  "\<not> list_ex (\<lambda>b. pt_token_id b = Some t) bs \<Longrightarrow>
   map (\<lambda>b. if r \<and> pt_token_id b = Some t then b\<lparr>pt_token_id := None\<rparr> else b) bs = bs"
  by (induction bs) auto

text \<open>
  What the function inside \<^verbatim>\<open>tryCatch\<close> does: it throws the forbidden error, writing
  nothing, for the protected demo token of the demo user; otherwise it throws the
  token-in-use error, writing nothing, when a binding references the token; otherwise it
  deletes the rows of the token that the user owns. No failure deletes a token.
\<close>

lemma deleteToken_handler_cases:
  "(isProtectedDemoToken e u t \<longrightarrow>
      deleteToken_handler e t u d = (d, Inl (ThrownStatus 403 ''token.protectedDemo'')))
   \<and> (\<not> isProtectedDemoToken e u t \<and> list_ex (\<lambda>b. pt_token_id b = Some t) (project_tokens d) \<longrightarrow>
      deleteToken_handler e t u d = (d, Inl token_in_use))
   \<and> (\<not> isProtectedDemoToken e u t \<and> \<not> list_ex (\<lambda>b. pt_token_id b = Some t) (project_tokens d)
        \<and> list_ex (\<lambda>k. tok_id k = t \<and> tok_user_id k = u) (tokens d) \<longrightarrow>
      deleteToken_handler e t u d
        = (commit (d\<lparr>tokens := filter (\<lambda>k. \<not> (tok_id k = t \<and> tok_user_id k = u)) (tokens d)\<rparr>), Inr ()))
   \<and> (\<forall>err. snd (deleteToken_handler e t u d) = Inl err \<longrightarrow>
        tokens (fst (deleteToken_handler e t u d)) = tokens d)"
proof (intro conjI impI allI)
  assume "isProtectedDemoToken e u t"
  then show "deleteToken_handler e t u d = (d, Inl (ThrownStatus 403 ''token.protectedDemo''))"
    by (simp add: deleteToken_handler_def)
next
  assume "\<not> isProtectedDemoToken e u t \<and> list_ex (\<lambda>b. pt_token_id b = Some t) (project_tokens d)"
  then show "deleteToken_handler e t u d = (d, Inl token_in_use)"
    by (simp add: deleteToken_handler_def tokenService_deleteToken_def)
next
  assume a: "\<not> isProtectedDemoToken e u t \<and> \<not> list_ex (\<lambda>b. pt_token_id b = Some t) (project_tokens d)
        \<and> list_ex (\<lambda>k. tok_id k = t \<and> tok_user_id k = u) (tokens d)"
  then have "map (\<lambda>b. if True \<and> pt_token_id b = Some t then b\<lparr>pt_token_id := None\<rparr> else b) (project_tokens d)
               = project_tokens d"
    by (intro map_unbind_unused) simp
  with a show "deleteToken_handler e t u d
        = (commit (d\<lparr>tokens := filter (\<lambda>k. \<not> (tok_id k = t \<and> tok_user_id k = u)) (tokens d)\<rparr>), Inr ())"
    by (simp add: deleteToken_handler_def tokenService_deleteToken_def Let_def)
next
  fix err
  assume f: "snd (deleteToken_handler e t u d) = Inl err"
  show "tokens (fst (deleteToken_handler e t u d)) = tokens d"
  proof (cases "list_ex (\<lambda>k. tok_id k = t \<and> tok_user_id k = u) (tokens d)")
    case True
    with f show ?thesis
      by (simp add: deleteToken_handler_def tokenService_deleteToken_def Let_def
          split: if_splits)
  next
    case False
    then have "filter (\<lambda>k. \<not> (tok_id k = t \<and> tok_user_id k = u)) (tokens d) = tokens d"
      by (simp add: list_ex_iff filter_id_conv)
    then show ?thesis
      by (simp add: deleteToken_handler_def tokenService_deleteToken_def Let_def commit_def)
  qed
qed


text \<open>Whatever the function throws, \<^verbatim>\<open>tryCatch\<close> answers with status 500.\<close>

lemma failed_delete_answers_500:
  "snd (deleteToken_handler e t u d) = Inl err \<Longrightarrow>
   http_status (snd (tokenController_deleteToken e t u d)) = 500"
  by (cases "deleteToken_handler e t u d") (simp add: tokenController_deleteToken_def tryCatch_def)

text \<open>
  C6. The demo user deletes the protected demo token 1. The function throws the forbidden
  error with status 403 and no table changes, but the answer of the operation carries
  status 500 with the message of the protected token: the forbidden status never goes
  out.
\<close>

theorem protected_token_delete_answers_500:
  "isProtectedDemoToken demo_env 1 1
   \<and> snd (deleteToken_handler demo_env 1 1 demo_db) = Inl (ThrownStatus 403 ''token.protectedDemo'')
   \<and> tokenController_deleteToken demo_env 1 1 demo_db
       = (demo_db, Failed ''This demo token cannot be deleted or disabled.'')
   \<and> http_status (snd (tokenController_deleteToken demo_env 1 1 demo_db)) = 500"
  by (simp add: tokenController_deleteToken_def deleteToken_handler_def tryCatch_def getMessage_def
      messageMap_def isProtectedDemoToken_def isDemoUser_def demo_env_def)

section \<open>Round trip of token secrets\<close>















section \<open>Deleting a project\<close>

lemma delete_agent_rows_Nil: "delete_agent_rows [] userId d = d"
  by (simp add: delete_agent_rows_def)

lemma delete_project_result:
  assumes "list_ex (\<lambda>p. pr_id p = projectId \<and> pr_user_id p = userId) (projects d)"
  shows "projectService_deleteProject projectId userId d
           = (commit (delete_agent_rows (member_agent_ids d projectId) userId
                        (delete_project_rows projectId userId d)), Inr True)"
  using assms
  by (simp add: projectService_deleteProject_def tx_db_def Let_def member_agent_ids_def
      delete_agent_rows_Nil)

text \<open>
  C8, as amended. A successful project deletion removes the project with its token
  binding, memberships, conversations, messages, logs and summaries, and it also deletes
  the agent rows of the project's non-System members that the caller owns, together with
  every membership and summary of those agents. Tokens, the other projects and all other
  rows stay as they were.
\<close>

theorem delete_project_effect:
  assumes "list_ex (\<lambda>p. pr_id p = projectId \<and> pr_user_id p = userId) (projects d)"
  shows "let d' = fst (projectService_deleteProject projectId userId d);
             convs = map cv_id (filter (\<lambda>c. cv_project_id c = projectId) (conversations d));
             gone = map ag_id (filter (cleaned_up d projectId userId) (agents d))
         in snd (projectService_deleteProject projectId userId d) = Inr True
          \<and> projects d' = filter (\<lambda>p. \<not> (pr_id p = projectId \<and> pr_user_id p = userId)) (projects d)
          \<and> project_tokens d' = filter (\<lambda>b. pt_project_id b \<noteq> projectId) (project_tokens d)
          \<and> project_agent_members d'
              = filter (\<lambda>m. pam_project_id m \<noteq> projectId \<and> pam_agent_id m \<notin> set gone)
                  (project_agent_members d)
          \<and> conversations d' = filter (\<lambda>c. cv_project_id c \<noteq> projectId) (conversations d)
          \<and> messages d'
              = filter (\<lambda>m. msg_project_id m \<noteq> projectId \<and> msg_conversation_id m \<notin> set convs)
                  (messages d)
          \<and> logs d' = filter (\<lambda>l. log_project_id l \<noteq> projectId) (logs d)
          \<and> agent_history_summaries d'
              = filter (\<lambda>h. ahs_project_id h \<noteq> projectId \<and> ahs_agent_id h \<notin> set gone)
                  (agent_history_summaries d)
          \<and> agents d' = filter (\<lambda>g. \<not> cleaned_up d projectId userId g) (agents d)
          \<and> tokens d' = tokens d"
  by (simp add: delete_project_result [OF assms] Let_def commit_def delete_agent_rows_def
      delete_project_rows_def cleaned_up_def member_agent_ids_def conj_commute)

theorem delete_project_effect_witness:
  "snd (projectService_deleteProject 100 10 demo_db) = Inr True
   \<and> map pr_id (projects (fst (projectService_deleteProject 100 10 demo_db))) = [1]
   \<and> map cv_id (conversations (fst (projectService_deleteProject 100 10 demo_db))) = [5]
   \<and> map pam_agent_id (project_agent_members (fst (projectService_deleteProject 100 10 demo_db))) = [3, 0]
   \<and> map ahs_agent_id (agent_history_summaries (fst (projectService_deleteProject 100 10 demo_db))) = [3]
   \<and> map ag_id (agents (fst (projectService_deleteProject 100 10 demo_db))) = [0, 3]
   \<and> tokens (fst (projectService_deleteProject 100 10 demo_db)) = tokens demo_db"
proof -
  have h: "list_ex (\<lambda>p. pr_id p = 100 \<and> pr_user_id p = 10) (projects demo_db)"
    by (simp add: demo_db_def)
  from delete_project_effect [OF h] show ?thesis
    by (simp add: Let_def cleaned_up_def member_agent_ids_def demo_db_def)
qed

text \<open>
  User 10 deletes project 100: the agents 1 and 2, which user 10 owns, are deleted too.
\<close>

theorem delete_project_deletes_member_agents:
  "map ag_id (filter (\<lambda>g. ag_user_id g = Some 10) (agents demo_db)) = [1, 2]
   \<and> snd (projectController_deleteProject demo_env 100 10 demo_db) = Inr ()
   \<and> map ag_id (agents (fst (projectController_deleteProject demo_env 100 10 demo_db))) = [0, 3]"
  by (simp add: projectController_deleteProject_def projectService_deleteProject_def tx_db_def
      isProtectedProject_def isDemoUser_def demo_env_def Let_def commit_def delete_agent_rows_def
      delete_project_rows_def demo_db_def)

section \<open>Delivery to a joined socket\<close>

lemma ws_send_fields:
  "clients (ws_send w m h) = clients h"
  "ready (ws_send w m h) = ready h"
  "pendingMessages (ws_send w m h) = pendingMessages h"
  by (simp_all add: ws_send_def)

lemma outbox_ws_send:
  "outbox ws (ws_send w m h) = (if w = ws \<and> ws \<in> ready h then outbox ws h @ [m] else outbox ws h)"
  by (simp add: ws_send_def outbox_def)

lemma fold_send_fields:
  "clients (fold (\<lambda>(w, c). ws_send w m) cs h) = clients h"
  "ready (fold (\<lambda>(w, c). ws_send w m) cs h) = ready h"
  "pendingMessages (fold (\<lambda>(w, c). ws_send w m) cs h) = pendingMessages h"
  by (induction cs arbitrary: h; simp add: ws_send_fields split: prod.splits)+

lemma outbox_fold_send:
  "outbox ws (fold (\<lambda>(w, c). ws_send w m) cs h) =
     outbox ws h @ (if ws \<in> ready h then replicate (length (filter (\<lambda>(w, c). w = ws) cs)) m else [])"
proof (induction cs arbitrary: h)
  case Nil
  then show ?case by simp
next
  case (Cons x cs)
  obtain w c where x: "x = (w, c)" by (cases x)
  show ?case
    by (simp add: x Cons.IH outbox_ws_send ws_send_fields replicate_app_Cons_same)
qed

lemma flush_fields:
  "clients (fold (ws_send w) q h) = clients h"
  "ready (fold (ws_send w) q h) = ready h"
  "pendingMessages (fold (ws_send w) q h) = pendingMessages h"
  by (induction q arbitrary: h; simp add: ws_send_fields)+

lemma outbox_flush:
  "outbox ws (fold (ws_send w) q h) = (if w = ws \<and> ws \<in> ready h then outbox ws h @ q else outbox ws h)"
  by (induction q arbitrary: h) (simp_all add: outbox_ws_send ws_send_fields)

lemma count_key_distinct:
  "distinct (map fst cs) \<Longrightarrow> map_of cs ws = Some c \<Longrightarrow>
   length (filter (\<lambda>(w, c'). w = ws) (filter (\<lambda>(w, c'). P c') cs)) = (if P c then 1 else 0)"
proof (induction cs)
  case Nil
  then show ?case by simp
next
  case (Cons x cs)
  obtain w c' where x: "x = (w, c')" by (cases x)
  show ?case
  proof (cases "w = ws")
    case True
    with Cons.prems x have "c' = c" and "ws \<notin> fst ` set cs" by auto
    then have "filter (\<lambda>(w, c'). w = ws) (filter (\<lambda>(w, c'). P c') cs) = []"
      by (force simp: filter_empty_conv)
    then show ?thesis using True x \<open>c' = c\<close> by simp
  next
    case False
    with Cons.prems x have "distinct (map fst cs)" and "map_of cs ws = Some c" by simp_all
    from Cons.IH [OF this]
    have ih: "length (filter (\<lambda>(w, c'). w = ws) (filter (\<lambda>(w, c'). P c') cs)) = (if P c then 1 else 0)" .
    have "filter (\<lambda>(w, c'). w = ws) (filter (\<lambda>(w, c'). P c') (x # cs))
            = filter (\<lambda>(w, c'). w = ws) (filter (\<lambda>(w, c'). P c') cs)"
      using False x by (simp del: filter_filter)
    with ih show ?thesis by (simp only:)
  qed
qed

lemma outbox_update [simp]:
  "outbox ws (h\<lparr>clients := cl\<rparr>) = outbox ws h"
  "outbox ws (h\<lparr>pendingMessages := pm\<rparr>) = outbox ws h"
  "outbox ws (h\<lparr>ready := rd\<rparr>) = outbox ws h"
  by (simp_all add: outbox_def)

lemma broadcast_subscribed:
  assumes "subscribed ws uid N h"
  shows "subscribed ws uid N (broadcastToProject p m h)"
    and "outbox ws (broadcastToProject p m h) = outbox ws h @ (if p = N then [m] else [])"
proof -
  let ?pc = "filter (\<lambda>(w, c). c_projectId c = p) (clients h)"
  from assms have d: "distinct (map fst (clients h))" and r: "ws \<in> ready h"
    and c: "map_of (clients h) ws = Some \<lparr>c_projectId = N, c_userId = uid\<rparr>"
    by (simp_all add: subscribed_def)
  show "subscribed ws uid N (broadcastToProject p m h)"
    using assms by (simp add: subscribed_def broadcastToProject_def Let_def fold_send_fields
        del: map_of_eq_Some_iff)
  have n: "length (filter (\<lambda>(w, c'). w = ws) ?pc) = (if p = N then 1 else 0)"
    using count_key_distinct [OF d c, of "\<lambda>c. c_projectId c = p"] by auto
  show "outbox ws (broadcastToProject p m h) = outbox ws h @ (if p = N then [m] else [])"
  proof (cases "?pc = []")
    case True
    with n have "p \<noteq> N" by auto
    with True show ?thesis by (simp add: broadcastToProject_def)
  next
    case False
    then show ?thesis using n r
      by (simp add: broadcastToProject_def outbox_fold_send)
  qed
qed

lemma on_message_other:
  assumes "subscribed ws uid N h" "w \<noteq> ws"
  shows "subscribed ws uid N (on_message w u msg h)"
    and "outbox ws (on_message w u msg h) = outbox ws h"
  using assms
  by (simp_all add: subscribed_def on_message_def Let_def flush_fields outbox_flush
      AList.distinct_update AList.update_conv' del: map_of_eq_Some_iff
      split: option.splits)

lemma on_close_other:
  assumes "subscribed ws uid N h" "w \<noteq> ws"
  shows "subscribed ws uid N (on_close w h)"
    and "outbox ws (on_close w h) = outbox ws h"
  using assms
  by (simp_all add: subscribed_def on_close_def AList.distinct_delete AList.delete_conv'
      del: map_of_eq_Some_iff)

lemma hub_step_subscribed:
  assumes "subscribed ws uid N h" "\<not> by_socket ws op"
  shows "subscribed ws uid N (hub_step op h)"
    and "outbox ws (hub_step op h) = outbox ws h @ events_for N [op]"
  using assms
  by (cases op; simp add: broadcast_subscribed on_message_other on_close_other)+

lemma hub_run_subscribed:
  assumes "subscribed ws uid N h" "\<forall>op\<in>set ops. \<not> by_socket ws op"
  shows "outbox ws (hub_run ops h) = outbox ws h @ events_for N ops"
  using assms unfolding hub_run_def
proof (induction ops arbitrary: h)
  case Nil
  then show ?case by simp
next
  case (Cons op ops)
  have e: "events_for N (op # ops) = events_for N [op] @ events_for N ops"
    by (cases op) simp_all
  from Cons.prems have s: "subscribed ws uid N (hub_step op h)"
    and o: "outbox ws (hub_step op h) = outbox ws h @ events_for N [op]"
    by (simp_all add: hub_step_subscribed)
  show ?case using Cons.IH [OF s] Cons.prems(2) o e by simp
qed

lemma join_subscribes:
  assumes "distinct (map fst (clients h))" "ws \<in> ready h" "truthy N"
  shows "subscribed ws uid N (on_message ws uid (join_frame N) h)"
    and "outbox ws (on_message ws uid (join_frame N) h)
           = outbox ws h @ queued h N"
    and "queued (on_message ws uid (join_frame N) h) N = []"
  using assms
  by (simp_all add: subscribed_def on_message_def join_frame_def Let_def flush_fields outbox_flush queued_def
      AList.distinct_update AList.update_conv' AList.delete_conv' del: map_of_eq_Some_iff
      split: option.splits)


text \<open>
  The client map starts empty and every step of the hub keeps its keys distinct, as a
  JavaScript Map does.
\<close>

lemma hub_step_keys_distinct:
  assumes "distinct (map fst (clients h))"
  shows "distinct (map fst (clients (hub_step op h)))"
proof (cases op)
  case (Broadcast p m)
  with assms show ?thesis
    by (simp add: broadcastToProject_def Let_def fold_send_fields)
next
  case (Message w u msg)
  with assms show ?thesis
    by (simp add: on_message_def Let_def flush_fields AList.distinct_update split: option.splits)
next
  case (Close w)
  with assms show ?thesis by (simp add: on_close_def AList.distinct_delete)
qed

text \<open>
  An authenticated socket that sends the join frame for a project id \<open>N\<close> (any
  non-zero number, or a string) is registered for \<open>N\<close> whoever its user is: the handler
  never reads the projects table. While the socket stays open and sends no further
  frame, it has received the events queued for \<open>N\<close> and then every event broadcast under
  the very value \<open>N\<close>, in order, and the queue of \<open>N\<close> is empty.
\<close>

lemma join_receives_events_of_same_id:
  assumes "distinct (map fst (clients h))" and "ws \<in> ready h" and "truthy N"
    and "\<forall>op \<in> set ops. \<not> by_socket ws op"
  shows "map_of (clients (on_message ws uid (join_frame N) h)) ws
           = Some \<lparr>c_projectId = N, c_userId = uid\<rparr>
       \<and> queued (on_message ws uid (join_frame N) h) N = []
       \<and> outbox ws (hub_run ops (on_message ws uid (join_frame N) h))
           = outbox ws h @ queued h N @ events_for N ops"
proof -
  let ?h = "on_message ws uid (join_frame N) h"
  have s: "subscribed ws uid N ?h" using assms(1-3) by (rule join_subscribes)
  have "outbox ws (hub_run ops ?h) = outbox ws ?h @ events_for N ops"
    using s assms(4) by (rule hub_run_subscribed)
  moreover have "outbox ws ?h = outbox ws h @ queued h N"
    using assms(1-3) by (rule join_subscribes)
  moreover have "queued ?h N = []" using assms(1-3) by (rule join_subscribes)
  ultimately show ?thesis using s by (simp add: subscribed_def)
qed

lemma join_receives_events_of_same_id_example:
  "distinct (map fst (clients demo_hub)) \<and> 2 \<in> ready demo_hub \<and> truthy (JNum 100)
   \<and> outbox 2 (hub_run [Broadcast (JNum 100) (Message_updated 1 ''sent'' 7),
                        Broadcast (JNum 1) (Project_updated (JNum 1) None None),
                        Message 1 1 (join_frame (JNum 100)),
                        Broadcast (JNum 100) (Project_updated (JNum 100) (Some 0) (Some True))]
                 (on_message 2 77 (join_frame (JNum 100)) demo_hub))
     = [Project_updated (JNum 100) (Some 1) None, Message_updated 1 ''sent'' 7,
        Project_updated (JNum 100) (Some 0) (Some True)]"
  using join_receives_events_of_same_id [of demo_hub 2 "JNum 100"
      "[Broadcast (JNum 100) (Message_updated 1 ''sent'' 7),
        Broadcast (JNum 1) (Project_updated (JNum 1) None None),
        Message 1 1 (join_frame (JNum 100)),
        Broadcast (JNum 100) (Project_updated (JNum 100) (Some 0) (Some True))]" 77]
  by (simp add: demo_hub_def outbox_def queued_def)

text \<open>
  C10. Socket 2 has joined project 100 by its number, as the browser does, and is
  registered and open. The internal pause route then pauses project 100; it hands the
  route parameter, a string, to \<open>pauseProjectInternal\<close>, which broadcasts under it. The
  pause succeeds, socket 2 receives nothing, and the event of its project waits in the
  queue of the string id.
\<close>

theorem joined_socket_misses_pause_broadcast:
  "subscribed 2 10 (JNum 100) (a_hub joined_app)
   \<and> snd (pauseProjectInternal (JStr 100) ''STALLED'' ''No activity.'' joined_app) = Inr ()
   \<and> map pr_paused (projects (a_db (fst (pauseProjectInternal (JStr 100) ''STALLED'' ''No activity.'' joined_app))))
       = [True, True]
   \<and> outbox 2 (a_hub joined_app) = [Project_updated (JNum 100) (Some 1) None]
   \<and> outbox 2 (a_hub (fst (pauseProjectInternal (JStr 100) ''STALLED'' ''No activity.'' joined_app)))
       = [Project_updated (JNum 100) (Some 1) None]
   \<and> queued (a_hub (fst (pauseProjectInternal (JStr 100) ''STALLED'' ''No activity.'' joined_app))) (JStr 100)
       = [Project_updated (JStr 100) None None]"
  by (simp add: joined_app_def demo_app_def demo_hub_def demo_db_def subscribed_def join_frame_def
      on_message_def ws_send_def pauseProjectInternal_def tx_def commit_def broadcastToProject_def
      queued_def outbox_def Let_def)

end
